theory Spec2Isabelle
  imports Main "HOL-Library.AList" "HOL-Library.Char_ord" "HOL-Library.List_Lexorder" "HOL-Library.Multiset"
begin

section \<open>Values shared by all components\<close>

text \<open>
  The Python values that travel through the engine are JSON-shaped: \<open>None\<close>, booleans,
  integers, strings, lists and string-keyed dicts. A dict is an association list in
  insertion order, read with \<open>map_of\<close> and written with \<open>AList.update\<close> (an existing
  key keeps its place, a new key goes to the end), as a Python dict does. Floats are not
  represented.
\<close>

datatype json =
    JNull
  | JBool bool
  | JInt int
  | JStr string
  | JList "json list"
  | JObj "(string \<times> json) list"

text \<open>Python truthiness (\<open>if x:\<close>, \<open>not x\<close>, \<open>x or y\<close>) of such a value.\<close>

fun truthy :: "json \<Rightarrow> bool" where
  "truthy JNull = False"
| "truthy (JBool b) = b"
| "truthy (JInt i) = (i \<noteq> 0)"
| "truthy (JStr s) = (s \<noteq> [])"
| "truthy (JList xs) = (xs \<noteq> [])"
| "truthy (JObj kvs) = (kvs \<noteq> [])"

text \<open>Truthiness of an \<open>Optional[str]\<close>: \<open>None\<close> and the empty string are false.\<close>

fun truthy_opt :: "string option \<Rightarrow> bool" where
  "truthy_opt None = False"
| "truthy_opt (Some s) = (s \<noteq> [])"

text \<open>
  Exceptions, by the classes the code distinguishes. An exception raised by a node or
  a condition carries \<open>str(e)\<close>, which the runner writes into its messages; an
  exception raised inside a library call (dict access, json, the HTTP client) carries
  a short tag, since no code path reads its text. Only subclasses of \<open>Exception\<close> are
  represented: every handler in the code is \<open>except Exception\<close> or narrower, and
  signals outside that class (task cancellation, keyboard interrupt) are not part of
  the model.
\<close>

datatype exn =
    TimeoutError string
  | ClientError string
  | JSONDecodeError string
  | IOError string
  | AttributeError string
  | TypeError string
  | KeyError string
  | Exception string

fun str_exn :: "exn \<Rightarrow> string" where
  "str_exn (TimeoutError m) = m"
| "str_exn (ClientError m) = m"
| "str_exn (JSONDecodeError m) = m"
| "str_exn (IOError m) = m"
| "str_exn (AttributeError m) = m"
| "str_exn (TypeError m) = m"
| "str_exn (KeyError m) = m"
| "str_exn (Exception m) = m"

text \<open>\<open>str(n)\<close> of a Python int, for the f-strings that print one.\<close>

definition digit_char :: "nat \<Rightarrow> char" where
  "digit_char d = ''0123456789'' ! d"

fun str_nat :: "nat \<Rightarrow> string" where
  "str_nat n = (if n < 10 then [digit_char n] else str_nat (n div 10) @ [digit_char (n mod 10)])"

definition str_int :: "int \<Rightarrow> string" where
  "str_int i = (if i < 0 then CHR ''-'' # str_nat (nat (- i)) else str_nat (nat i))"

definition quoted :: "string \<Rightarrow> string" where
  "quoted s = CHR 0x27 # s @ [CHR 0x27]"

section \<open>state.py: GraphState\<close>

record GraphState =
  conversation_id :: string
  messages :: "json list"
  metadata :: "(string \<times> json) list"
  checkpoints :: "string list"
  current_step :: "string option"
  error :: "string option"

text \<open>The dataclass constructor \<open>GraphState(conversation_id=c)\<close> with its defaults.\<close>

definition new_GraphState :: "string \<Rightarrow> GraphState" where
  "new_GraphState c =
     \<lparr>conversation_id = c, messages = [], metadata = [], checkpoints = [],
      current_step = None, error = None\<rparr>"

definition add_message :: "GraphState \<Rightarrow> json \<Rightarrow> GraphState" where
  "add_message state message = state\<lparr>messages := messages state @ [message]\<rparr>"

definition add_checkpoint :: "GraphState \<Rightarrow> string \<Rightarrow> GraphState" where
  "add_checkpoint state checkpoint_id = state\<lparr>checkpoints := checkpoints state @ [checkpoint_id]\<rparr>"

section \<open>langgraph_core.py: AsyncGraphRunner\<close>

text \<open>
  \<open>retry_delay\<close> only feeds \<open>asyncio.sleep\<close> between attempts, which changes no
  state; the record keeps the two fields that decide what the runner returns.
\<close>

record RunnerConfig =
  timeout :: int
  max_retries :: int

definition default_RunnerConfig :: RunnerConfig where
  "default_RunnerConfig = \<lparr>timeout = 30, max_retries = 3\<rparr>"

text \<open>
  A node is a Python callable that receives the state object, may mutate it in place,
  may read and change anything else it closes over (the world \<open>'w\<close>: counters, network,
  clock), and either returns a state object or raises. One attempt under
  \<open>asyncio.wait_for\<close> therefore ends in one of two ways:
  \<^item> \<open>Returns r\<close>: the callable returned the object \<open>r\<close> in time;
  \<^item> \<open>Raises e s'\<close>: the attempt raised \<open>e\<close> (\<open>TimeoutError\<close> when the deadline passed),
    leaving the state object it was given as \<open>s'\<close>, with whatever it had mutated so far.
  Whether the deadline passes is the attempt's business: time is not modelled.
\<close>

datatype outcome = Returns GraphState | Raises exn GraphState

type_synonym 'w node = "GraphState \<Rightarrow> 'w \<Rightarrow> outcome \<times> 'w"

text \<open>
  A call log accompanies every run, so that "is invoked" can be stated: one entry per
  invocation of a node callable, with the name it ran under, the state it was given and
  how the attempt ended. The log is an observer; the code's results do not depend on it.
\<close>

type_synonym call = "string \<times> GraphState \<times> outcome"

definition node_error_message :: "RunnerConfig \<Rightarrow> string \<Rightarrow> exn \<Rightarrow> string" where
  "node_error_message cfg node_name e =
     (case e of
        TimeoutError m \<Rightarrow>
          ''Node '' @ quoted node_name @ '' timed out after '' @ str_int (timeout cfg) @ ''s''
      | _ \<Rightarrow> ''Node '' @ quoted node_name @ '' failed: '' @ str_exn e)"

text \<open>
  The loop \<open>for attempt in range(max_retries)\<close> of \<open>run_node\<close>, over the list of
  attempt numbers still to run. A failed attempt that is the last one
  (\<open>attempt == max_retries - 1\<close>) records the message and re-raises; any other sleeps
  and goes on with the state object as the failed attempt left it. Falling out of the
  loop returns the state (line 80).
\<close>

fun run_node_attempts ::
  "RunnerConfig \<Rightarrow> 'w node \<Rightarrow> string \<Rightarrow> nat list \<Rightarrow> GraphState \<Rightarrow> 'w \<Rightarrow> outcome \<times> 'w \<times> call list"
where
  "run_node_attempts cfg node_func node_name [] state w = (Returns state, w, [])"
| "run_node_attempts cfg node_func node_name (attempt # rest) state w =
     (case node_func state w of
        (Returns result, w') \<Rightarrow> (Returns result, w', [(node_name, state, Returns result)])
      | (Raises e state', w') \<Rightarrow>
          if int attempt = max_retries cfg - 1
          then (Raises e (state'\<lparr>error := Some (node_error_message cfg node_name e)\<rparr>), w',
                [(node_name, state, Raises e state')])
          else (case run_node_attempts cfg node_func node_name rest state' w' of
                  (r, w'', calls) \<Rightarrow> (r, w'', (node_name, state, Raises e state') # calls)))"

definition run_node ::
  "RunnerConfig \<Rightarrow> 'w node \<Rightarrow> GraphState \<Rightarrow> string \<Rightarrow> 'w \<Rightarrow> outcome \<times> 'w \<times> call list"
where
  "run_node cfg node_func state node_name w =
     run_node_attempts cfg node_func node_name [0 ..< nat (max_retries cfg)]
       (state\<lparr>current_step := Some node_name\<rparr>) w"

text \<open>
  The loop of \<open>run_graph\<close> over the order. The node dict is an association list; the
  checks come in the code's order: a missing name first, then an error already present,
  then the node itself. Every \<open>break\<close> returns the state as it stands.
\<close>

fun run_graph_loop ::
  "RunnerConfig \<Rightarrow> (string \<times> 'w node) list \<Rightarrow> string list \<Rightarrow> GraphState \<Rightarrow> 'w \<Rightarrow> GraphState \<times> 'w \<times> call list"
where
  "run_graph_loop cfg nodes [] state w = (state, w, [])"
| "run_graph_loop cfg nodes (node_name # rest) state w =
     (case map_of nodes node_name of
        None \<Rightarrow> (state\<lparr>error := Some (''Node '' @ quoted node_name @ '' not found in graph'')\<rparr>, w, [])
      | Some node_func \<Rightarrow>
          if truthy_opt (error state) then (state, w, [])
          else (case run_node cfg node_func state node_name w of
                  (Raises e state', w', calls) \<Rightarrow> (state', w', calls)
                | (Returns state', w', calls) \<Rightarrow>
                    (case run_graph_loop cfg nodes rest state' w' of
                       (final, w'', calls') \<Rightarrow> (final, w'', calls @ calls'))))"

text \<open>\<open>order = node_order or list(nodes.keys())\<close>: \<open>None\<close> and the empty list both fall back.\<close>

definition resolve_order :: "(string \<times> 'w node) list \<Rightarrow> string list option \<Rightarrow> string list" where
  "resolve_order nodes node_order =
     (case node_order of None \<Rightarrow> map fst nodes | Some [] \<Rightarrow> map fst nodes | Some order \<Rightarrow> order)"

definition run_graph ::
  "RunnerConfig \<Rightarrow> (string \<times> 'w node) list \<Rightarrow> GraphState \<Rightarrow> string list option \<Rightarrow> 'w \<Rightarrow> GraphState \<times> 'w \<times> call list"
where
  "run_graph cfg nodes initial_state node_order w =
     run_graph_loop cfg nodes (resolve_order nodes node_order) initial_state w"

text \<open>
  \<open>run_conditional\<close>. The condition is a callable like a node: it is handed the state
  object and returns a truth value or raises, leaving the state object as it then is.
  \<open>conditional_try\<close> is the body of the \<open>try\<close> block; \<open>run_conditional\<close> adds the
  \<open>except Exception\<close> handler, which writes its own message into the state object and
  returns it.
\<close>

datatype cond_outcome = CondReturns bool GraphState | CondRaises exn GraphState

type_synonym 'w condition = "GraphState \<Rightarrow> 'w \<Rightarrow> cond_outcome \<times> 'w"

definition conditional_try ::
  "RunnerConfig \<Rightarrow> 'w condition \<Rightarrow> 'w node \<Rightarrow> 'w node \<Rightarrow> GraphState \<Rightarrow> string \<Rightarrow> 'w \<Rightarrow> outcome \<times> 'w \<times> call list"
where
  "conditional_try cfg condition_func true_node false_node state node_name w =
     (case condition_func state w of
        (CondRaises e state', w') \<Rightarrow> (Raises e state', w', [])
      | (CondReturns condition state', w') \<Rightarrow>
          run_node cfg (if condition then true_node else false_node) state'
            (if condition then node_name @ ''_true'' else node_name @ ''_false'') w')"

definition conditional_error_message :: "string \<Rightarrow> exn \<Rightarrow> string" where
  "conditional_error_message node_name e =
     ''Conditional '' @ quoted node_name @ '' failed: '' @ str_exn e"

definition run_conditional ::
  "RunnerConfig \<Rightarrow> 'w condition \<Rightarrow> 'w node \<Rightarrow> 'w node \<Rightarrow> GraphState \<Rightarrow> string \<Rightarrow> 'w \<Rightarrow> outcome \<times> 'w \<times> call list"
where
  "run_conditional cfg condition_func true_node false_node state node_name w =
     (case conditional_try cfg condition_func true_node false_node state node_name w of
        (Returns result, w', calls) \<Rightarrow> (Returns result, w', calls)
      | (Raises e state', w', calls) \<Rightarrow>
          (Returns (state'\<lparr>error := Some (conditional_error_message node_name e)\<rparr>), w', calls))"

section \<open>nodes.py: the node that reports through the state\<close>

text \<open>
  \<open>validate_node\<close> records a problem in \<open>state.error\<close> and returns normally; it never
  raises. (Its \<open>asyncio.sleep\<close> changes nothing.)
\<close>

definition validate_node :: "'w node" where
  "validate_node state w =
     (Returns (if \<not> (conversation_id state \<noteq> [])
               then state\<lparr>error := Some ''Missing conversation_id''\<rparr> else state), w)"

section \<open>What happened in a run, told from the node functions\<close>

text \<open>
  These definitions follow the words of the specification and do not mention the
  runner; the runner is compared with them.

  \<open>failed_attempts f name calls s w\<close> replays a call log against the node function
  itself: every entry must be an application of \<open>f\<close> that raised, the first to the state
  \<open>s\<close> in the world \<open>w\<close> and every next one to the state object and the world the
  attempt before it left. The answer is the state object and the world after the last
  of them.
\<close>

fun failed_attempts ::
  "'w node \<Rightarrow> string \<Rightarrow> call list \<Rightarrow> GraphState \<Rightarrow> 'w \<Rightarrow> (GraphState \<times> 'w) option"
where
  "failed_attempts f name [] s w = Some (s, w)"
| "failed_attempts f name (c # cs) s w =
     (case f s w of
        (Raises e s', w') \<Rightarrow>
          if c = (name, s, Raises e s') then failed_attempts f name cs s' w' else None
      | (Returns r, w') \<Rightarrow> None)"

text \<open>
  \<open>returning_attempts f name n s w\<close>: within \<open>n\<close> attempts the node function returns;
  the attempts before the returning one raise, each handing its state object and world
  to the next. The answer is what the node returned, the world, and the calls made.
  \<open>node_returns\<close> is that for the attempts the configuration allows, on the state with
  \<open>current_step\<close> set; a configuration that allows no attempt lets the state through
  uncalled.
\<close>

fun returning_attempts ::
  "'w node \<Rightarrow> string \<Rightarrow> nat \<Rightarrow> GraphState \<Rightarrow> 'w \<Rightarrow> (GraphState \<times> 'w \<times> call list) option"
where
  "returning_attempts f name 0 s w = None"
| "returning_attempts f name (Suc n) s w =
     (case f s w of
        (Returns r, w') \<Rightarrow> Some (r, w', [(name, s, Returns r)])
      | (Raises e s', w') \<Rightarrow>
          (case returning_attempts f name n s' w' of
             None \<Rightarrow> None
           | Some (r, w'', cs) \<Rightarrow> Some (r, w'', (name, s, Raises e s') # cs)))"

definition node_returns ::
  "RunnerConfig \<Rightarrow> 'w node \<Rightarrow> string \<Rightarrow> GraphState \<Rightarrow> 'w \<Rightarrow> (GraphState \<times> 'w \<times> call list) option"
where
  "node_returns cfg f name s w =
     (if max_retries cfg < 1 then Some (s\<lparr>current_step := Some name\<rparr>, w, [])
      else returning_attempts f name (nat (max_retries cfg)) (s\<lparr>current_step := Some name\<rparr>) w)"

text \<open>
  \<open>nodes_succeed cfg nodes names s w\<close>: the nodes named, one after the other, are each
  found in the node map, are each started on a state without error, and each return;
  every node is given the state the one before it returned, in the world that one left.
  The answer is the state the last of them returned, the world, and the calls made.
\<close>

fun nodes_succeed ::
  "RunnerConfig \<Rightarrow> (string \<times> 'w node) list \<Rightarrow> string list \<Rightarrow> GraphState \<Rightarrow> 'w
     \<Rightarrow> (GraphState \<times> 'w \<times> call list) option"
where
  "nodes_succeed cfg nodes [] s w = Some (s, w, [])"
| "nodes_succeed cfg nodes (n # ns) s w =
     (case map_of nodes n of
        None \<Rightarrow> None
      | Some f \<Rightarrow>
          if truthy_opt (error s) then None
          else (case node_returns cfg f n s w of
                  None \<Rightarrow> None
                | Some (s', w', c) \<Rightarrow>
                    (case nodes_succeed cfg nodes ns s' w' of
                       None \<Rightarrow> None
                     | Some (s1, w1, cs) \<Rightarrow> Some (s1, w1, c @ cs))))"

section \<open>Example nodes and conditions\<close>

text \<open>
  The nodes of tests/test\_async\_graph.py. \<open>flaky_node\<close> closes over an attempt counter
  (the world is that counter) and raises until the second call; \<open>node1\<close> and \<open>node3\<close>
  leave a mark in the metadata; \<open>error_node\<close> and \<open>failing_node\<close> always raise.
\<close>

definition flaky_node :: "nat node" where
  "flaky_node state cnt =
     (if Suc cnt < 2 then (Raises (Exception ''Temporary failure'') state, Suc cnt)
      else (Returns (state\<lparr>metadata := AList.update ''attempts'' (JInt (int (Suc cnt))) (metadata state)\<rparr>),
            Suc cnt))"

definition failing_node :: "'w node" where
  "failing_node state w = (Raises (Exception ''Permanent failure'') state, w)"

definition node1 :: "'w node" where
  "node1 state w =
     (Returns (state\<lparr>metadata := AList.update ''node1'' (JBool True) (metadata state)\<rparr>), w)"

definition error_node :: "'w node" where
  "error_node state w = (Raises (Exception ''Intentional error'') state, w)"

definition node3 :: "'w node" where
  "node3 state w =
     (Returns (state\<lparr>metadata := AList.update ''node3'' (JBool True) (metadata state)\<rparr>), w)"

text \<open>A condition that reads a metadata flag, and one that raises.\<close>

definition flag_condition :: "'w condition" where
  "flag_condition state w =
     (CondReturns (case map_of (metadata state) ''flag'' of None \<Rightarrow> False | Some v \<Rightarrow> truthy v) state, w)"

definition broken_condition :: "'w condition" where
  "broken_condition state w = (CondRaises (Exception ''bad flag'') state, w)"

text \<open>
  A node that leaves a trace of every attempt in the messages and then raises, and a
  node map that lists it between two others, in another order than the one run.
\<close>

definition stumbling_node :: "'w node" where
  "stumbling_node state w =
     (Raises (Exception ''Intentional error'')
        (state\<lparr>messages := messages state @ [JStr ''partial'']\<rparr>), w)"

definition stumble_nodes :: "(string \<times> unit node) list" where
  "stumble_nodes = [(''node3'', node3), (''stumble'', stumbling_node), (''node1'', node1)]"

definition test_nodes :: "(string \<times> unit node) list" where
  "test_nodes = [(''node1'', node1), (''error_node'', error_node), (''node3'', node3)]"

definition validate_nodes :: "(string \<times> unit node) list" where
  "validate_nodes = [(''validate'', validate_node), (''node3'', node3)]"

text \<open>
  The states of the run of \<open>stumble_nodes\<close> in the order node1, stumble, node3 from a
  fresh state: what \<open>node1\<close> returns, the state object after \<open>i\<close> attempts of the
  stumbling node, and the three attempts of the default configuration.
\<close>

definition after_node1 :: GraphState where
  "after_node1 =
     \<lparr>conversation_id = ''test-8'', messages = [], metadata = [(''node1'', JBool True)],
      checkpoints = [], current_step = Some ''node1'', error = None\<rparr>"

definition stumbled :: "nat \<Rightarrow> GraphState" where
  "stumbled i =
     \<lparr>conversation_id = ''test-8'', messages = replicate i (JStr ''partial''),
      metadata = [(''node1'', JBool True)], checkpoints = [],
      current_step = Some ''stumble'', error = None\<rparr>"

definition stumble_calls :: "call list" where
  "stumble_calls =
     [(''stumble'', stumbled 0, Raises (Exception ''Intentional error'') (stumbled 1)),
      (''stumble'', stumbled 1, Raises (Exception ''Intentional error'') (stumbled 2)),
      (''stumble'', stumbled 2, Raises (Exception ''Intentional error'') (stumbled 3))]"

text \<open>The state \<open>validate_node\<close> returns for an empty conversation id.\<close>

definition after_validate :: GraphState where
  "after_validate =
     \<lparr>conversation_id = [], messages = [], metadata = [], checkpoints = [],
      current_step = Some ''validate'', error = Some ''Missing conversation_id''\<rparr>"

section \<open>policy.py: the policy enforcers\<close>

text \<open>
  What the HTTP client hands back to \<open>OPAHttpPolicyEnforcer.enforce\<close>: either a
  response with a status and the outcome of \<open>await response.json()\<close> (a parsed body,
  or the exception that parsing raised), or the exception that \<open>session.post\<close> raised
  (\<open>ClientError\<close> for connectivity, \<open>TimeoutError\<close> for the deadline). The transport
  is a function of the request and the world; the lazily created session lives in that
  world.
\<close>

datatype http_outcome = HttpResponse int "exn + json" | HttpFails exn

type_synonym 'w transport = "string \<Rightarrow> json \<Rightarrow> int \<Rightarrow> 'w \<Rightarrow> http_outcome \<times> 'w"

record OPAHttp =
  opa_url :: string
  policy_path :: string
  opa_timeout :: int

definition rstrip_slash :: "string \<Rightarrow> string" where
  "rstrip_slash s = rev (dropWhile (\<lambda>c. c = CHR ''/'') (rev s))"

definition lstrip_slash :: "string \<Rightarrow> string" where
  "lstrip_slash s = dropWhile (\<lambda>c. c = CHR ''/'') s"

definition new_OPAHttp :: "string \<Rightarrow> string \<Rightarrow> int \<Rightarrow> OPAHttp" where
  "new_OPAHttp url path t =
     \<lparr>opa_url = rstrip_slash url, policy_path = lstrip_slash path, opa_timeout = t\<rparr>"

type_synonym policy_context = "(string \<times> json) list option"

definition opa_input_data :: "string \<Rightarrow> string \<Rightarrow> policy_context \<Rightarrow> json" where
  "opa_input_data action resource ctx =
     JObj [(''input'', JObj [(''action'', JStr action), (''resource'', JStr resource),
                            (''context'', JObj (case ctx of None \<Rightarrow> [] | Some c \<Rightarrow> c))])]"

text \<open>
  \<open>OPAHttpPolicyEnforcer.enforce\<close>. The value returned on status 200 is
  \<open>result.get("result", False)\<close>, whatever JSON value that is; a body that is not an
  object has no \<open>get\<close>. The handler for \<open>ClientError\<close> and \<open>TimeoutError\<close> re-raises,
  and nothing else is caught, so every exception leaves the method.
\<close>

definition opa_enforce ::
  "'w transport \<Rightarrow> OPAHttp \<Rightarrow> string \<Rightarrow> string \<Rightarrow> policy_context \<Rightarrow> 'w \<Rightarrow> (exn + json) \<times> 'w"
where
  "opa_enforce post self action resource ctx w =
     (case post (opa_url self @ ''/'' @ policy_path self) (opa_input_data action resource ctx)
             (opa_timeout self) w of
        (HttpFails e, w') \<Rightarrow> (Inl e, w')
      | (HttpResponse status body, w') \<Rightarrow>
          if status = 200 then
            (case body of
               Inl e \<Rightarrow> (Inl e, w')
             | Inr (JObj kvs) \<Rightarrow>
                 (Inr (case map_of kvs ''result'' of None \<Rightarrow> JBool False | Some v \<Rightarrow> v), w')
             | Inr _ \<Rightarrow> (Inl (AttributeError ''object has no attribute get''), w'))
          else (Inr (JBool False), w'))"

text \<open>
  The enforcer classes. \<open>CustomEnforcer\<close> stands for any other subclass of
  \<open>PolicyEnforcer\<close>: an \<open>enforce\<close> method that returns a value or raises.
\<close>

datatype 'w enforcer =
    OPAHttpPolicyEnforcer OPAHttp
  | LocalDenyEnforcer
  | CompositePolicyEnforcer "'w enforcer" "'w enforcer"
  | CustomEnforcer "string \<Rightarrow> string \<Rightarrow> policy_context \<Rightarrow> 'w \<Rightarrow> (exn + json) \<times> 'w"

text \<open>
  A log of \<open>enforce\<close> calls accompanies every decision, so that "is called" can be
  stated. Each call of an \<open>enforce\<close> method logs itself with its arguments under the
  empty path; a composite then lists the calls made inside its primary under
  \<open>Primary\<close> and those made inside its fallback under \<open>Fallback\<close>. So in the log of a
  composite the entries with path \<open>[Primary]\<close> and \<open>[Fallback]\<close> are the calls of
  \<open>self.primary.enforce\<close> and \<open>self.fallback.enforce\<close>.
\<close>

datatype side = Primary | Fallback

type_synonym policy_call = "side list \<times> string \<times> string \<times> policy_context"

definition under :: "side \<Rightarrow> policy_call list \<Rightarrow> policy_call list" where
  "under sd calls = map (\<lambda>c. (sd # fst c, snd c)) calls"

fun enforce ::
  "'w transport \<Rightarrow> 'w enforcer \<Rightarrow> string \<Rightarrow> string \<Rightarrow> policy_context \<Rightarrow> 'w
     \<Rightarrow> (exn + json) \<times> 'w \<times> policy_call list"
where
  "enforce post (OPAHttpPolicyEnforcer self) action resource ctx w =
     (case opa_enforce post self action resource ctx w of
        (r, w') \<Rightarrow> (r, w', [([], action, resource, ctx)]))"
| "enforce post LocalDenyEnforcer action resource ctx w =
     (Inr (JBool False), w, [([], action, resource, ctx)])"
| "enforce post (CustomEnforcer f) action resource ctx w =
     (case f action resource ctx w of (r, w') \<Rightarrow> (r, w', [([], action, resource, ctx)]))"
| "enforce post (CompositePolicyEnforcer primary fallback) action resource ctx w =
     (case enforce post primary action resource ctx w of
        (Inr v, w', calls) \<Rightarrow> (Inr v, w', ([], action, resource, ctx) # under Primary calls)
      | (Inl e, w', calls) \<Rightarrow>
          (case enforce post fallback action resource ctx w' of
             (r, w'', calls') \<Rightarrow>
               (r, w'', ([], action, resource, ctx) # under Primary calls @ under Fallback calls')))"

section \<open>state.py: serialisation of the state\<close>

definition opt_str :: "string option \<Rightarrow> json" where
  "opt_str s = (case s of None \<Rightarrow> JNull | Some t \<Rightarrow> JStr t)"

definition to_dict :: "GraphState \<Rightarrow> json" where
  "to_dict state =
     JObj [(''conversation_id'', JStr (conversation_id state)),
           (''messages'', JList (messages state)),
           (''metadata'', JObj (metadata state)),
           (''checkpoints'', JList (map JStr (checkpoints state))),
           (''current_step'', opt_str (current_step state)),
           (''error'', opt_str (error state))]"





section \<open>checkpoint.py: CheckpointStore\<close>

text \<open>
  The checkpoint directory: one file per checkpoint id, named \<open>id.json\<close>, listed in
  the order in which \<open>glob\<close> yields them. A file is what \<open>json.load\<close> makes of it:
  the parsed document; or \<open>Corrupt\<close> when opening or parsing it raises \<open>IOError\<close> or
  \<open>JSONDecodeError\<close>; or \<open>Undecodable\<close> when its bytes are not text in the encoding
  of \<open>open\<close>, so that reading raises \<open>UnicodeDecodeError\<close>. Writing a JSON-shaped
  value with \<open>json.dump\<close> and reading it back gives the same value.
\<close>

datatype checkpoint_file = Corrupt | Undecodable | Document json

type_synonym directory = "(string \<times> checkpoint_file) list"

text \<open>
  The clock: \<open>datetime.now(timezone.utc)\<close> is a date and time of day in UTC, and
  \<open>isoformat()\<close> prints it as \<open>YYYY-MM-DDTHH:MM:SS+00:00\<close>, with \<open>.ffffff\<close> after the
  seconds when the microseconds are not zero.
\<close>

record utc_datetime =
  year :: nat
  month :: nat
  day :: nat
  hour :: nat
  minute :: nat
  second :: nat
  microsecond :: nat

definition zero_pad :: "nat \<Rightarrow> nat \<Rightarrow> string" where
  "zero_pad width n = replicate (width - length (str_nat n)) (CHR ''0'') @ str_nat n"

definition isoformat :: "utc_datetime \<Rightarrow> string" where
  "isoformat d =
     zero_pad 4 (year d) @ ''-'' @ zero_pad 2 (month d) @ ''-'' @ zero_pad 2 (day d) @ ''T''
       @ zero_pad 2 (hour d) @ '':'' @ zero_pad 2 (minute d) @ '':'' @ zero_pad 2 (second d)
       @ (if microsecond d = 0 then [] else ''.'' @ zero_pad 6 (microsecond d))
       @ ''+00:00''"

text \<open>
  The file of a checkpoint is \<open>checkpoint_dir / f"{checkpoint_id}.json"\<close>. The
  directory is flat and holds files only, so it can hold that file when the id is a
  file name: no slash, no NUL, and with the suffix at most the 255 bytes a file name
  may have. For any other id \<open>open\<close> raises inside \<open>save\<close> (an id with a slash names
  a path that is not in the directory; the model takes that path not to exist).
\<close>

definition storable_id :: "string \<Rightarrow> bool" where
  "storable_id checkpoint_id =
     (CHR ''/'' \<notin> set checkpoint_id \<and> CHR 0x00 \<notin> set checkpoint_id
      \<and> length checkpoint_id + 5 \<le> 255)"

text \<open>
  \<open>save\<close>. \<open>metadata or {}\<close> takes the caller's dict over when it is not empty, and
  the two generated fields are then written into that very dict, before the document
  is dumped. A state dict that contains the caller's metadata dict changes with it.
  So the state argument is given as a view: the state dict as it reads when the
  caller's metadata dict has the given content (a constant function when the two
  share nothing). The result is the new directory, or the exception of \<open>open\<close>, and
  the caller's metadata dict as the call leaves it either way. The returned path
  string is not represented.
\<close>

definition generated_metadata :: "utc_datetime \<Rightarrow> string \<Rightarrow> (string \<times> json) list \<Rightarrow> (string \<times> json) list" where
  "generated_metadata now checkpoint_id m =
     AList.update ''checkpoint_id'' (JStr checkpoint_id)
       (AList.update ''timestamp'' (JStr (isoformat now)) m)"

definition save ::
  "directory \<Rightarrow> utc_datetime \<Rightarrow> string \<Rightarrow> ((string \<times> json) list \<Rightarrow> json)
     \<Rightarrow> (string \<times> json) list option \<Rightarrow> (exn + directory) \<times> (string \<times> json) list option"
where
  "save dir now checkpoint_id state md =
     (let taken_over = (case md of None \<Rightarrow> False | Some m \<Rightarrow> m \<noteq> []);
          written = generated_metadata now checkpoint_id (case md of None \<Rightarrow> [] | Some m \<Rightarrow> m);
          callers = (if taken_over then Some written else md);
          checkpoint_data =
            JObj [(''state'', state (case callers of None \<Rightarrow> [] | Some m \<Rightarrow> m)),
                  (''metadata'', JObj written)]
      in (if CHR 0x00 \<in> set checkpoint_id then Inl (Exception ''embedded null byte'')
          else if \<not> storable_id checkpoint_id then Inl (IOError checkpoint_id)
          else Inr (AList.update checkpoint_id (Document checkpoint_data) dir),
          callers))"

definition load :: "directory \<Rightarrow> string \<Rightarrow> exn + json option" where
  "load dir checkpoint_id =
     (case map_of dir checkpoint_id of
        None \<Rightarrow> Inr None
      | Some Corrupt \<Rightarrow> Inl (JSONDecodeError checkpoint_id)
      | Some Undecodable \<Rightarrow> Inl (Exception ''UnicodeDecodeError'')
      | Some (Document data) \<Rightarrow> Inr (Some data))"

definition delete :: "directory \<Rightarrow> string \<Rightarrow> bool \<times> directory" where
  "delete dir checkpoint_id =
     (if map_of dir checkpoint_id \<noteq> None then (True, AList.delete checkpoint_id dir)
      else (False, dir))"

text \<open>\<open>x.get(key, default)\<close>: only a dict has the method.\<close>

fun py_get :: "json \<Rightarrow> string \<Rightarrow> json \<Rightarrow> exn + json" where
  "py_get (JObj kvs) k d = Inr (case map_of kvs k of None \<Rightarrow> d | Some v \<Rightarrow> v)"
| "py_get _ k d = Inl (AttributeError ''get'')"

definition bind_exn :: "exn + 'a \<Rightarrow> ('a \<Rightarrow> exn + 'b) \<Rightarrow> exn + 'b" where
  "bind_exn x f = (case x of Inl e \<Rightarrow> Inl e | Inr v \<Rightarrow> f v)"

definition rollback :: "directory \<Rightarrow> string \<Rightarrow> exn + json option" where
  "rollback dir checkpoint_id =
     (case load dir checkpoint_id of
        Inl e \<Rightarrow> Inl e
      | Inr None \<Rightarrow> Inr None
      | Inr (Some checkpoint_data) \<Rightarrow>
          if \<not> truthy checkpoint_data then Inr None
          else bind_exn (py_get checkpoint_data ''state'' JNull) (\<lambda>v. Inr (Some v)))"

text \<open>
  The body of the loop of \<open>list_checkpoints\<close> for one parsed document: \<open>Inr None\<close> is
  \<open>continue\<close>, \<open>Inr (Some entry)\<close> is the appended summary, and \<open>Inl e\<close> is an
  exception the handler does not name (\<open>AttributeError\<close>), which leaves the method,
  as does the \<open>UnicodeDecodeError\<close> of an undecodable file.
\<close>

definition checkpoint_summary :: "string \<Rightarrow> json \<Rightarrow> json \<Rightarrow> exn + json" where
  "checkpoint_summary stem data md =
     bind_exn (py_get md ''checkpoint_id'' (JStr stem)) (\<lambda>cp.
     bind_exn (py_get md ''timestamp'' JNull) (\<lambda>ts.
     bind_exn (py_get data ''state'' (JObj [])) (\<lambda>st1.
     bind_exn (py_get st1 ''conversation_id'' JNull) (\<lambda>cid.
     bind_exn (py_get data ''state'' (JObj [])) (\<lambda>st2.
     bind_exn (py_get st2 ''current_step'' JNull) (\<lambda>cs.
       Inr (JObj [(''checkpoint_id'', cp), (''timestamp'', ts), (''conversation_id'', cid),
                  (''current_step'', cs), (''metadata'', md)])))))))"

definition list_entry :: "string option \<Rightarrow> string \<Rightarrow> json \<Rightarrow> exn + json option" where
  "list_entry conv_id stem data =
     bind_exn (py_get data ''metadata'' (JObj [])) (\<lambda>md.
       if truthy_opt conv_id then
         bind_exn (py_get data ''state'' (JObj [])) (\<lambda>state.
         bind_exn (py_get state ''conversation_id'' JNull) (\<lambda>c.
           if Some c \<noteq> map_option JStr conv_id then Inr None
           else bind_exn (checkpoint_summary stem data md) (\<lambda>entry. Inr (Some entry))))
       else bind_exn (checkpoint_summary stem data md) (\<lambda>entry. Inr (Some entry)))"

fun list_loop :: "string option \<Rightarrow> directory \<Rightarrow> exn + json list" where
  "list_loop conv_id [] = Inr []"
| "list_loop conv_id ((stem, Corrupt) # rest) = list_loop conv_id rest"
| "list_loop conv_id ((stem, Undecodable) # rest) = Inl (Exception ''UnicodeDecodeError'')"
| "list_loop conv_id ((stem, Document data) # rest) =
     bind_exn (list_entry conv_id stem data) (\<lambda>entry.
     bind_exn (list_loop conv_id rest) (\<lambda>checkpoints.
       Inr (case entry of None \<Rightarrow> checkpoints | Some x \<Rightarrow> x # checkpoints)))"

text \<open>
  Python's \<open>==\<close> and \<open><\<close> on JSON-shaped values. \<open>True\<close> and \<open>False\<close> are the
  numbers 1 and 0; strings compare by code point, lists lexicographically, dicts for
  equality only; \<open>None\<close> is ordered with nothing. \<open>py_lt\<close> gives \<open>None\<close> where Python
  raises \<open>TypeError\<close>.
\<close>

fun py_eq :: "json \<Rightarrow> json \<Rightarrow> bool" where
  "py_eq JNull y = (y = JNull)"
| "py_eq (JBool a) y =
     (case y of JBool b \<Rightarrow> a = b | JInt j \<Rightarrow> j = (if a then 1 else 0) | _ \<Rightarrow> False)"
| "py_eq (JInt i) y =
     (case y of JBool b \<Rightarrow> i = (if b then 1 else 0) | JInt j \<Rightarrow> i = j | _ \<Rightarrow> False)"
| "py_eq (JStr s) y = (y = JStr s)"
| "py_eq (JList xs) y = (case y of JList ys \<Rightarrow> list_all2 py_eq xs ys | _ \<Rightarrow> False)"
| "py_eq (JObj a) y =
     (case y of
        JObj b \<Rightarrow>
          length a = length b \<and>
          list_all (\<lambda>kv. case map_of b (fst kv) of None \<Rightarrow> False | Some v' \<Rightarrow> py_eq (snd kv) v') a
      | _ \<Rightarrow> False)"

fun py_lt :: "json \<Rightarrow> json \<Rightarrow> bool option"
  and py_lt_list :: "json list \<Rightarrow> json list \<Rightarrow> bool option"
where
  "py_lt (JBool a) y =
     (case y of JBool b \<Rightarrow> Some (\<not> a \<and> b) | JInt j \<Rightarrow> Some ((if a then 1 else 0) < j) | _ \<Rightarrow> None)"
| "py_lt (JInt i) y =
     (case y of JBool b \<Rightarrow> Some (i < (if b then 1 else 0)) | JInt j \<Rightarrow> Some (i < j) | _ \<Rightarrow> None)"
| "py_lt (JStr s) y = (case y of JStr t \<Rightarrow> Some (s < t) | _ \<Rightarrow> None)"
| "py_lt (JList xs) y = (case y of JList ys \<Rightarrow> py_lt_list xs ys | _ \<Rightarrow> None)"
| "py_lt JNull y = None"
| "py_lt (JObj a) y = None"
| "py_lt_list [] ys = Some (ys \<noteq> [])"
| "py_lt_list (x # xs) [] = Some False"
| "py_lt_list (x # xs) (y # ys) = (if py_eq x y then py_lt_list xs ys else py_lt x y)"

text \<open>
  \<open>list.sort(key=..., reverse=True)\<close>: the list is reversed, sorted stably in
  ascending order of the keys using only \<open><\<close>, and reversed again. The sort is
  written as an insertion sort. CPython's merge sort asks other comparisons but, as
  any stable sort, returns the same list when no comparison raises; and when the keys
  are strings, numbers or \<open>None\<close>, both raise \<open>TypeError\<close> in the same cases: two or
  more entries whose keys are not all strings or all numbers.
\<close>

fun py_insort :: "('a \<Rightarrow> json) \<Rightarrow> 'a \<Rightarrow> 'a list \<Rightarrow> exn + 'a list" where
  "py_insort key x [] = Inr [x]"
| "py_insort key x (y # ys) =
     (case py_lt (key y) (key x) of
        None \<Rightarrow> Inl (TypeError ''not supported between instances'')
      | Some True \<Rightarrow> bind_exn (py_insort key x ys) (\<lambda>zs. Inr (y # zs))
      | Some False \<Rightarrow> Inr (x # y # ys))"

fun py_sort :: "('a \<Rightarrow> json) \<Rightarrow> 'a list \<Rightarrow> exn + 'a list" where
  "py_sort key [] = Inr []"
| "py_sort key (x # xs) = bind_exn (py_sort key xs) (py_insort key x)"

definition py_sort_reverse :: "('a \<Rightarrow> json) \<Rightarrow> 'a list \<Rightarrow> exn + 'a list" where
  "py_sort_reverse key xs = bind_exn (py_sort key (rev xs)) (\<lambda>ys. Inr (rev ys))"

text \<open>The sort key \<open>x.get("timestamp", "")\<close> of a summary.\<close>

definition timestamp_key :: "json \<Rightarrow> json" where
  "timestamp_key x =
     (case x of JObj kvs \<Rightarrow> (case map_of kvs ''timestamp'' of None \<Rightarrow> JStr [] | Some v \<Rightarrow> v)
              | _ \<Rightarrow> JNull)"

definition list_checkpoints :: "directory \<Rightarrow> string option \<Rightarrow> exn + json list" where
  "list_checkpoints dir conv_id =
     bind_exn (list_loop conv_id dir) (py_sort_reverse timestamp_key)"

section \<open>supervisor.py: Supervisor\<close>

text \<open>
  What the supervisor takes from outside: the HTTP transport of the OPA enforcer, the
  clock read by \<open>CheckpointStore.save\<close>, and \<open>uuid4().hex\<close>. Each reads and changes the
  world.
\<close>

record 'w env =
  http_post :: "'w transport"
  utc_now :: "'w \<Rightarrow> utc_datetime \<times> 'w"
  uuid4_hex :: "'w \<Rightarrow> string \<times> 'w"

text \<open>
  The supervisor object holds the runner's configuration and the enforcer; the
  checkpoint directory is passed along as state. The constructor takes the enforcer
  given, else the composite of OPA and local deny when OPA is enabled, else local deny.
\<close>

record 'w Supervisor =
  runner_config :: RunnerConfig
  policy_enforcer :: "'w enforcer"

definition new_Supervisor ::
  "RunnerConfig option \<Rightarrow> 'w enforcer option \<Rightarrow> bool \<Rightarrow> string \<Rightarrow> 'w Supervisor"
where
  "new_Supervisor cfg enforcer enable_opa url =
     \<lparr>runner_config = (case cfg of None \<Rightarrow> default_RunnerConfig | Some c \<Rightarrow> c),
      policy_enforcer =
        (case enforcer of
           Some e \<Rightarrow> e
         | None \<Rightarrow>
             if enable_opa
             then CompositePolicyEnforcer
                    (OPAHttpPolicyEnforcer (new_OPAHttp url ''v1/data/authz/allow'' 5))
                    LocalDenyEnforcer
             else LocalDenyEnforcer)\<rparr>"

text \<open>
  \<open>save_checkpoint\<close>: the id is the one given, or the conversation id of the state, an
  underscore and the first eight hex digits of a fresh uuid; the metadata dict is made
  on the spot, so the state shares nothing with it.
\<close>

definition save_checkpoint ::
  "'w env \<Rightarrow> directory \<Rightarrow> GraphState \<Rightarrow> string option \<Rightarrow> 'w \<Rightarrow> (exn + string) \<times> directory \<times> 'w"
where
  "save_checkpoint env dir state given w =
     (case (if truthy_opt given then (case given of Some g \<Rightarrow> g | None \<Rightarrow> [], w)
            else (case uuid4_hex env w of
                    (u, w') \<Rightarrow> (conversation_id state @ ''_'' @ take 8 u, w'))) of
        (checkpoint_id, w1) \<Rightarrow>
          (case utc_now env w1 of
             (now, w2) \<Rightarrow>
               (case save dir now checkpoint_id (\<lambda>m. to_dict state)
                       (Some [(''conversation_id'', JStr (conversation_id state)),
                              (''current_step'', opt_str (current_step state)),
                              (''message_count'', JInt (int (length (messages state))))]) of
                  (Inl e, callers) \<Rightarrow> (Inl e, dir, w2)
                | (Inr dir', callers) \<Rightarrow> (Inr checkpoint_id, dir', w2))))"


text \<open>
  \<open>run_conversation\<close>. The policy is asked first; a falsy answer returns the errored
  state at once, and an exception of the enforcer leaves the method. Without custom
  nodes the default dict is built with \<open>finalize_node()\<close>, a call without the argument
  the function requires, which raises \<open>TypeError\<close>. Otherwise the graph runs in the key
  order of the dict, and a run without error is checkpointed when asked: saved first,
  the id appended to the state after.
\<close>

definition run_conversation ::
  "'w env \<Rightarrow> 'w Supervisor \<Rightarrow> string \<Rightarrow> (string \<times> 'w node) list option \<Rightarrow> bool \<Rightarrow> directory \<Rightarrow> 'w
     \<Rightarrow> (exn + GraphState) \<times> directory \<times> 'w \<times> call list"
where
  "run_conversation env self conv_id custom_nodes auto_checkpoint dir w =
     (case enforce (http_post env) (policy_enforcer self) ''execute'' (''conversation/'' @ conv_id)
             (Some [(''conversation_id'', JStr conv_id)]) w of
        (Inl e, w1, asked) \<Rightarrow> (Inl e, dir, w1, [])
      | (Inr allowed, w1, asked) \<Rightarrow>
          if \<not> truthy allowed
          then (Inr ((new_GraphState conv_id)\<lparr>error := Some ''Policy denied conversation execution''\<rparr>),
                dir, w1, [])
          else (case custom_nodes of
                  None \<Rightarrow>
                    (Inl (TypeError ''finalize_node() missing 1 required positional argument''),
                     dir, w1, [])
                | Some nodes \<Rightarrow>
                    (case run_graph (runner_config self) nodes (new_GraphState conv_id)
                            (Some (map fst nodes)) w1 of
                       (final_state, w2, calls) \<Rightarrow>
                         if auto_checkpoint \<and> \<not> truthy_opt (error final_state)
                         then (case save_checkpoint env dir final_state None w2 of
                                 (Inl e, dir', w3) \<Rightarrow> (Inl e, dir', w3, calls)
                               | (Inr checkpoint_id, dir', w3) \<Rightarrow>
                                   (Inr (add_checkpoint final_state checkpoint_id), dir', w3, calls))
                         else (Inr final_state, dir, w2, calls))))"

section \<open>The listing, as the specification words it\<close>

text \<open>
  These definitions follow the specification, not the code; the code's
  \<open>list_checkpoints\<close> is compared with them. The parsed documents of a directory; a
  document of the shape \<open>save\<close> writes (an object whose \<open>state\<close>, if present, and
  \<open>metadata\<close> are objects, the metadata carrying a string \<open>timestamp\<close>); the
  conversation id stored in a document; whether a filter selects it (no filter when
  the argument is \<open>None\<close> or empty); and its summary.
\<close>

fun documents :: "directory \<Rightarrow> (string \<times> json) list" where
  "documents [] = []"
| "documents ((stem, Corrupt) # rest) = documents rest"
| "documents ((stem, Undecodable) # rest) = documents rest"
| "documents ((stem, Document data) # rest) = (stem, data) # documents rest"

definition field :: "json \<Rightarrow> string \<Rightarrow> json option" where
  "field x k = (case x of JObj kvs \<Rightarrow> map_of kvs k | _ \<Rightarrow> None)"

definition well_formed_document :: "json \<Rightarrow> bool" where
  "well_formed_document data =
     (case data of
        JObj kvs \<Rightarrow>
          (case map_of kvs ''state'' of None \<Rightarrow> True | Some (JObj st) \<Rightarrow> True | Some _ \<Rightarrow> False)
          \<and> (case map_of kvs ''metadata'' of
                Some (JObj md) \<Rightarrow> (case map_of md ''timestamp'' of Some (JStr t) \<Rightarrow> True | _ \<Rightarrow> False)
              | _ \<Rightarrow> False)
      | _ \<Rightarrow> False)"

definition stored_field :: "json \<Rightarrow> string \<Rightarrow> json" where
  "stored_field data k =
     (case field data ''state'' of
        None \<Rightarrow> JNull
      | Some st \<Rightarrow> (case field st k of None \<Rightarrow> JNull | Some v \<Rightarrow> v))"

definition selected :: "string option \<Rightarrow> json \<Rightarrow> bool" where
  "selected conv_id data =
     (case conv_id of
        None \<Rightarrow> True
      | Some c \<Rightarrow> c = [] \<or> stored_field data ''conversation_id'' = JStr c)"

definition expected_summary :: "string \<times> json \<Rightarrow> json" where
  "expected_summary sd =
     (case field (snd sd) ''metadata'' of
        None \<Rightarrow> JNull
      | Some md \<Rightarrow>
          JObj [(''checkpoint_id'', case field md ''checkpoint_id'' of None \<Rightarrow> JStr (fst sd) | Some v \<Rightarrow> v),
                (''timestamp'', case field md ''timestamp'' of None \<Rightarrow> JNull | Some v \<Rightarrow> v),
                (''conversation_id'', stored_field (snd sd) ''conversation_id''),
                (''current_step'', stored_field (snd sd) ''current_step''),
                (''metadata'', md)])"

definition expected_entries :: "string option \<Rightarrow> directory \<Rightarrow> json list" where
  "expected_entries conv_id dir =
     map expected_summary (filter (\<lambda>sd. selected conv_id (snd sd)) (documents dir))"

definition timestamp_str :: "json \<Rightarrow> string" where
  "timestamp_str x = (case timestamp_key x of JStr s \<Rightarrow> s | _ \<Rightarrow> [])"

section \<open>Example transport and enforcers\<close>

text \<open>
  An OPA server as the tests of tests/test\_policy\_enforcer.py mock it: it allows
  reading \<open>document1\<close>, answers status 500 to a write, and is unreachable otherwise.
\<close>

definition example_post :: "unit transport" where
  "example_post url payload t w =
     (if payload = opa_input_data ''read'' ''document1'' None
      then (HttpResponse 200 (Inr (JObj [(''result'', JBool True)])), w)
      else if payload = opa_input_data ''write'' ''document1'' None
      then (HttpResponse 500 (Inr JNull), w)
      else (HttpFails (ClientError ''Connection failed''), w))"

definition example_opa :: OPAHttp where
  "example_opa = new_OPAHttp ''http://test-opa:8181'' ''v1/data/authz/allow'' 5"

definition example_composite :: "unit enforcer" where
  "example_composite = CompositePolicyEnforcer (OPAHttpPolicyEnforcer example_opa) LocalDenyEnforcer"

section \<open>Example checkpoints\<close>

text \<open>
  The state of \<open>test_checkpoint_save_and_load\<close>, two clock readings, and caller
  metadata: a note, and the metadata of an earlier checkpoint handed in again.
\<close>

definition conv1_state :: GraphState where
  "conv1_state =
     (new_GraphState ''conv-1'')
       \<lparr>messages := [JObj [(''text'', JStr ''test message'')]], current_step := Some ''step1''\<rparr>"

definition time0 :: utc_datetime where
  "time0 = \<lparr>year = 2026, month = 1, day = 1, hour = 0, minute = 0, second = 0, microsecond = 0\<rparr>"

definition time1 :: utc_datetime where
  "time1 = \<lparr>year = 2026, month = 1, day = 2, hour = 9, minute = 30, second = 5, microsecond = 1500\<rparr>"

definition note_metadata :: "(string \<times> json) list" where
  "note_metadata = [(''note'', JStr ''test'')]"

definition reused_metadata :: "(string \<times> json) list" where
  "reused_metadata =
     [(''note'', JStr ''test''), (''timestamp'', JStr ''2026-01-01T00:00:00+00:00''),
      (''checkpoint_id'', JStr ''cp1'')]"

section \<open>Example supervisors\<close>

text \<open>
  A world that counts the calls made to the outside: an unreachable OPA server, a
  clock, a uuid source. Two enforcers written by hand, one that denies \<open>execute\<close> and
  one that allows everything; a directory with one older file; and a node that lists
  a checkpoint id of its own in the state.
\<close>

definition example_env :: "nat env" where
  "example_env =
     \<lparr>http_post = (\<lambda>url payload t w. (HttpFails (ClientError ''Connection failed''), Suc w)),
      utc_now = (\<lambda>w. (time1, Suc w)),
      uuid4_hex = (\<lambda>w. (''deadbeefcafe4f00aa11bb22cc33dd44'', Suc w))\<rparr>"

definition deny_execute :: "nat enforcer" where
  "deny_execute = CustomEnforcer (\<lambda>action resource ctx w. (Inr (JBool (action \<noteq> ''execute'')), Suc w))"

definition allow_all :: "nat enforcer" where
  "allow_all = CustomEnforcer (\<lambda>action resource ctx w. (Inr (JBool True), Suc w))"

definition example_dir :: directory where
  "example_dir = [(''older'', Corrupt)]"

definition listing_node :: "'w node" where
  "listing_node state w =
     (Returns (state\<lparr>checkpoints := checkpoints state @ [''conv-1_deadbeef'']\<rparr>), w)"

section \<open>Example directories\<close>

text \<open>
  The directory of \<open>test_checkpoint_list\<close>, as three calls of \<open>save\<close> leave it, with an
  unreadable file in between; and two documents written by another hand, without
  metadata.
\<close>

definition listed_dir :: directory where
  "listed_dir =
     [(''checkpoint-1'',
       Document (JObj [(''state'', JObj [(''conversation_id'', JStr ''conv-1''),
                                         (''current_step'', JStr ''step1'')]),
                       (''metadata'', JObj [(''timestamp'', JStr ''2026-01-01T00:00:00+00:00''),
                                            (''checkpoint_id'', JStr ''checkpoint-1'')])])),
      (''broken'', Corrupt),
      (''checkpoint-2'',
       Document (JObj [(''state'', JObj [(''conversation_id'', JStr ''conv-2''),
                                         (''current_step'', JStr ''step2'')]),
                       (''metadata'', JObj [(''timestamp'', JStr ''2026-01-01T00:00:01+00:00''),
                                            (''checkpoint_id'', JStr ''checkpoint-2'')])])),
      (''checkpoint-3'',
       Document (JObj [(''state'', JObj [(''conversation_id'', JStr ''conv-1''),
                                         (''current_step'', JStr ''step3'')]),
                       (''metadata'', JObj [(''timestamp'', JStr ''2026-01-01T00:00:02+00:00''),
                                            (''checkpoint_id'', JStr ''checkpoint-3'')])]))]"

definition bare_dir :: directory where
  "bare_dir =
     [(''a'', Document (JObj [(''state'', JObj [(''conversation_id'', JStr ''conv-1'')])])),
      (''b'', Document (JObj [(''state'', JObj [(''conversation_id'', JStr ''conv-1'')])]))]"

section \<open>Properties of the runner\<close>

lemma node_error_message_nonempty: "node_error_message cfg n e \<noteq> []"
  by (cases e) (simp_all add: node_error_message_def)

lemma run_node_attempts_props:
  assumes "atts \<noteq> []"
    and "int (last atts) = max_retries cfg - 1"
    and "\<forall>a \<in> set (butlast atts). int a \<noteq> max_retries cfg - 1"
    and "run_node_attempts cfg f name atts s w = (res, w', calls)"
  shows "calls \<noteq> [] \<and> fst (hd calls) = name \<and> fst (snd (hd calls)) = s
       \<and> length calls \<le> length atts
       \<and> (\<forall>c \<in> set calls. fst c = name)
       \<and> (\<forall>c \<in> set (butlast calls). \<exists>e st. snd (snd c) = Raises e st)
       \<and> (\<forall>e s'. res = Raises e s' \<longrightarrow> length calls = length atts
             \<and> (\<exists>st. snd (snd (last calls)) = Raises e st
                    \<and> s' = st\<lparr>error := Some (node_error_message cfg name e)\<rparr>))
       \<and> (\<forall>r. res = Returns r \<longrightarrow> snd (snd (last calls)) = Returns r)"
  using assms
proof (induction atts arbitrary: s w res w' calls)
  case Nil
  then show ?case by simp
next
  case (Cons a atts)
  obtain out w1 where f: "f s w = (out, w1)" by (cases "f s w")
  show ?case
  proof (cases out)
    case (Returns r)
    with Cons.prems f show ?thesis by auto
  next
    case (Raises e st)
    show ?thesis
    proof (cases "atts = []")
      case True
      with Cons.prems f Raises show ?thesis by auto
    next
      case False
      then have ne: "int a \<noteq> max_retries cfg - 1" using Cons.prems(3) by simp
      obtain r2 w2 c2 where rec: "run_node_attempts cfg f name atts st w1 = (r2, w2, c2)"
        by (cases "run_node_attempts cfg f name atts st w1")
      have eqs: "res = r2" "w' = w2" "calls = (name, s, Raises e st) # c2"
        using Cons.prems(4) f Raises ne rec by auto
      have l: "int (last atts) = max_retries cfg - 1" using Cons.prems(2) False by simp
      have b: "\<forall>a \<in> set (butlast atts). int a \<noteq> max_retries cfg - 1"
        using Cons.prems(3) False by simp
      note IH = Cons.IH[OF False l b rec]
      from IH eqs show ?thesis by (auto simp: butlast_def split: if_splits)
    qed
  qed
qed

lemma run_node_props:
  assumes "1 \<le> max_retries cfg"
    and "run_node cfg f s name w = (res, w', calls)"
  shows "calls \<noteq> [] \<and> fst (hd calls) = name
       \<and> fst (snd (hd calls)) = s\<lparr>current_step := Some name\<rparr>
       \<and> length calls \<le> nat (max_retries cfg)
       \<and> (\<forall>c \<in> set calls. fst c = name)
       \<and> (\<forall>c \<in> set (butlast calls). \<exists>e st. snd (snd c) = Raises e st)
       \<and> (\<forall>e s'. res = Raises e s' \<longrightarrow> length calls = nat (max_retries cfg)
             \<and> (\<exists>st. snd (snd (last calls)) = Raises e st
                    \<and> s' = st\<lparr>error := Some (node_error_message cfg name e)\<rparr>))
       \<and> (\<forall>r. res = Returns r \<longrightarrow> snd (snd (last calls)) = Returns r)"
proof -
  let ?n = "nat (max_retries cfg)"
  have pos: "0 < ?n" using assms(1) by simp
  have ne: "[0 ..< ?n] \<noteq> []" using pos by simp
  have l: "int (last [0 ..< ?n]) = max_retries cfg - 1" using pos assms(1) by simp
  have b: "\<forall>a \<in> set (butlast [0 ..< ?n]). int a \<noteq> max_retries cfg - 1"
    using assms(1) by (auto simp: butlast_conv_take)
  have r: "run_node_attempts cfg f name [0 ..< ?n] (s\<lparr>current_step := Some name\<rparr>) w = (res, w', calls)"
    using assms(2) by (simp add: run_node_def)
  from run_node_attempts_props[OF ne l b r] show ?thesis by simp
qed

lemma run_node_no_attempts:
  assumes "\<not> 1 \<le> max_retries cfg"
  shows "run_node cfg f s name w = (Returns (s\<lparr>current_step := Some name\<rparr>), w, [])"
proof -
  from assms have "nat (max_retries cfg) = 0" by simp
  then show ?thesis by (simp add: run_node_def)
qed

lemma run_node_Raises:
  assumes "run_node cfg f s name w = (Raises e s', w', calls)"
  shows "1 \<le> max_retries cfg"
    and "\<exists>st. snd (snd (last calls)) = Raises e st
            \<and> s' = st\<lparr>error := Some (node_error_message cfg name e)\<rparr>"
    and "error s' = Some (node_error_message cfg name e)"
    and "truthy_opt (error s')"
proof -
  show m: "1 \<le> max_retries cfg"
  proof (rule ccontr)
    assume "\<not> 1 \<le> max_retries cfg"
    from run_node_no_attempts[OF this, of f s name w] assms show False by simp
  qed
  from run_node_props[OF m assms]
  show ex: "\<exists>st. snd (snd (last calls)) = Raises e st
            \<and> s' = st\<lparr>error := Some (node_error_message cfg name e)\<rparr>" by blast
  then obtain st where "s' = st\<lparr>error := Some (node_error_message cfg name e)\<rparr>" by blast
  then show "error s' = Some (node_error_message cfg name e)" by simp
  then show "truthy_opt (error s')" by (simp add: node_error_message_nonempty)
qed

lemma run_node_calls_names:
  assumes "run_node cfg f s n w = (r, w2, c2)"
  shows "\<forall>c \<in> set c2. fst c = n"
proof (cases "1 \<le> max_retries cfg")
  case True
  from run_node_props[OF True assms] show ?thesis by blast
next
  case False
  from run_node_no_attempts[OF False, of f s n w] assms show ?thesis by simp
qed

lemmas runner_example_defs =
  upt_conv_Cons run_graph_def resolve_order_def run_node_def default_RunnerConfig_def new_GraphState_def
  node_error_message_def quoted_def test_nodes_def validate_nodes_def stumble_nodes_def
  node1_def error_node_def node3_def flaky_node_def failing_node_def validate_node_def
  stumbling_node_def



lemma failed_attempts_names:
  "failed_attempts f name calls s w = Some (st, w') \<Longrightarrow> \<forall>c \<in> set calls. fst c = name"
proof (induction calls arbitrary: s w)
  case Nil
  then show ?case by simp
next
  case (Cons c cs)
  obtain out w1 where f: "f s w = (out, w1)" by (cases "f s w")
  show ?case
  proof (cases out)
    case (Returns r)
    with Cons.prems f show ?thesis by simp
  next
    case (Raises e s')
    show ?thesis
    proof (cases "c = (name, s, Raises e s')")
      case True
      with Cons.prems f Raises have "failed_attempts f name cs s' w1 = Some (st, w')" by simp
      from Cons.IH[OF this] True show ?thesis by simp
    next
      case False
      with Cons.prems f Raises show ?thesis by simp
    qed
  qed
qed

lemma run_node_attempts_all_fail:
  assumes "atts \<noteq> []"
    and "int (last atts) = max_retries cfg - 1"
    and "\<forall>a \<in> set (butlast atts). int a \<noteq> max_retries cfg - 1"
    and "failed_attempts f name calls s w = Some (st, w')"
    and "length calls = length atts"
    and "snd (snd (last calls)) = Raises e st'"
  shows "run_node_attempts cfg f name atts s w =
           (Raises e (st\<lparr>error := Some (node_error_message cfg name e)\<rparr>), w', calls)"
  using assms
proof (induction atts arbitrary: calls s w)
  case Nil
  then show ?case by simp
next
  case (Cons a atts)
  from Cons.prems(5) obtain c cs where calls: "calls = c # cs" by (cases calls) simp_all
  obtain out w1 where f: "f s w = (out, w1)" by (cases "f s w")
  show ?case
  proof (cases out)
    case (Returns r)
    with Cons.prems(4) calls f show ?thesis by simp
  next
    case (Raises e1 s1)
    have c: "c = (name, s, Raises e1 s1)"
      using Cons.prems(4) calls f Raises by (simp split: if_splits)
    have rest: "failed_attempts f name cs s1 w1 = Some (st, w')"
      using Cons.prems(4) calls f Raises c by simp
    show ?thesis
    proof (cases "atts = []")
      case True
      with Cons.prems(5) calls have cs: "cs = []" by simp
      with rest have "st = s1" "w' = w1" by simp_all
      moreover from Cons.prems(6) calls cs c have "e = e1" by simp
      moreover from True Cons.prems(2) have "int a = max_retries cfg - 1" by simp
      ultimately show ?thesis using f Raises calls cs c by simp
    next
      case False
      then have ne: "int a \<noteq> max_retries cfg - 1" using Cons.prems(3) by simp
      have l: "int (last atts) = max_retries cfg - 1" using Cons.prems(2) False by simp
      have b: "\<forall>a \<in> set (butlast atts). int a \<noteq> max_retries cfg - 1"
        using Cons.prems(3) False by simp
      have len: "length cs = length atts" using Cons.prems(5) calls by simp
      with False have "cs \<noteq> []" by auto
      then have lc: "snd (snd (last cs)) = Raises e st'" using Cons.prems(6) calls by simp
      from Cons.IH[OF False l b rest len lc] f Raises ne calls c show ?thesis by simp
    qed
  qed
qed

lemma run_node_all_fail:
  assumes "1 \<le> max_retries cfg"
    and "failed_attempts f name calls (s\<lparr>current_step := Some name\<rparr>) w = Some (st, w')"
    and "length calls = nat (max_retries cfg)"
    and "snd (snd (last calls)) = Raises e st'"
  shows "run_node cfg f s name w =
           (Raises e (st\<lparr>error := Some (node_error_message cfg name e)\<rparr>), w', calls)"
proof -
  let ?n = "nat (max_retries cfg)"
  have pos: "0 < ?n" using assms(1) by simp
  have ne: "[0 ..< ?n] \<noteq> []" using pos by simp
  have l: "int (last [0 ..< ?n]) = max_retries cfg - 1" using pos assms(1) by simp
  have b: "\<forall>a \<in> set (butlast [0 ..< ?n]). int a \<noteq> max_retries cfg - 1"
    using assms(1) by (auto simp: butlast_conv_take)
  have len: "length calls = length [0 ..< ?n]" using assms(3) by simp
  from run_node_attempts_all_fail[OF ne l b assms(2) len assms(4)]
  show ?thesis by (simp add: run_node_def)
qed

lemma returning_attempts_run:
  assumes "atts \<noteq> []"
    and "int (last atts) = max_retries cfg - 1"
    and "\<forall>a \<in> set (butlast atts). int a \<noteq> max_retries cfg - 1"
    and "returning_attempts f name (length atts) s w = Some (r, w', calls)"
  shows "run_node_attempts cfg f name atts s w = (Returns r, w', calls)"
  using assms
proof (induction atts arbitrary: s w calls)
  case Nil
  then show ?case by simp
next
  case (Cons a atts)
  obtain out w1 where f: "f s w = (out, w1)" by (cases "f s w")
  show ?case
  proof (cases out)
    case (Returns r1)
    with Cons.prems(4) f show ?thesis by auto
  next
    case (Raises e1 s1)
    from Cons.prems(4) f Raises
    obtain cs where rest: "returning_attempts f name (length atts) s1 w1 = Some (r, w', cs)"
      and c: "calls = (name, s, Raises e1 s1) # cs"
      by (cases "returning_attempts f name (length atts) s1 w1") auto
    from rest have ne: "atts \<noteq> []" by (cases atts) simp_all
    then have na: "int a \<noteq> max_retries cfg - 1" using Cons.prems(3) by simp
    have l: "int (last atts) = max_retries cfg - 1" using Cons.prems(2) ne by simp
    have b: "\<forall>a \<in> set (butlast atts). int a \<noteq> max_retries cfg - 1"
      using Cons.prems(3) ne by simp
    from Cons.IH[OF ne l b rest] f Raises na c show ?thesis by simp
  qed
qed

lemma node_returns_run:
  assumes "node_returns cfg f name s w = Some (r, w', calls)"
  shows "run_node cfg f s name w = (Returns r, w', calls)"
proof (cases "max_retries cfg < 1")
  case True
  then have "\<not> 1 \<le> max_retries cfg" by simp
  from run_node_no_attempts[OF this, of f s name w] assms True show ?thesis
    by (simp add: node_returns_def)
next
  case False
  let ?n = "nat (max_retries cfg)"
  from False have pos: "0 < ?n" by simp
  have ne: "[0 ..< ?n] \<noteq> []" using pos by simp
  have l: "int (last [0 ..< ?n]) = max_retries cfg - 1" using pos False by simp
  have b: "\<forall>a \<in> set (butlast [0 ..< ?n]). int a \<noteq> max_retries cfg - 1"
    using False by (auto simp: butlast_conv_take)
  have ra: "returning_attempts f name (length [0 ..< ?n]) (s\<lparr>current_step := Some name\<rparr>) w
              = Some (r, w', calls)"
    using assms False by (simp add: node_returns_def)
  from returning_attempts_run[OF ne l b ra] show ?thesis by (simp add: run_node_def)
qed

lemma nodes_succeed_append:
  assumes "nodes_succeed cfg nodes pre s w = Some (s1, w1, calls1)"
  shows "run_graph_loop cfg nodes (pre @ rest) s w =
         (case run_graph_loop cfg nodes rest s1 w1 of (final, w2, calls2) \<Rightarrow> (final, w2, calls1 @ calls2))"
  using assms
proof (induction pre arbitrary: s w calls1)
  case Nil
  then show ?case by (simp split: prod.splits)
next
  case (Cons n ns)
  from Cons.prems obtain f where nf: "map_of nodes n = Some f"
    by (cases "map_of nodes n") simp_all
  from Cons.prems nf have ne: "\<not> truthy_opt (error s)" by (simp split: if_splits)
  from Cons.prems nf ne obtain st w2 c2 where nr: "node_returns cfg f n s w = Some (st, w2, c2)"
    by (cases "node_returns cfg f n s w") auto
  note rn = node_returns_run[OF nr]
  from Cons.prems nf ne nr obtain cs where rec: "nodes_succeed cfg nodes ns st w2 = Some (s1, w1, cs)"
    and c: "calls1 = c2 @ cs"
    by (cases "nodes_succeed cfg nodes ns st w2") auto
  from Cons.IH[OF rec] nf ne rn c show ?case by (simp split: prod.splits)
qed

lemma nodes_succeed_names:
  "nodes_succeed cfg nodes pre s w = Some (s1, w1, calls1) \<Longrightarrow> \<forall>c \<in> set calls1. fst c \<in> set pre"
proof (induction pre arbitrary: s w calls1)
  case Nil
  then show ?case by simp
next
  case (Cons n ns)
  from Cons.prems obtain f where nf: "map_of nodes n = Some f"
    by (cases "map_of nodes n") simp_all
  from Cons.prems nf have ne: "\<not> truthy_opt (error s)" by (simp split: if_splits)
  from Cons.prems nf ne obtain st w2 c2 where nr: "node_returns cfg f n s w = Some (st, w2, c2)"
    by (cases "node_returns cfg f n s w") auto
  note rn = node_returns_run[OF nr]
  from Cons.prems nf ne nr obtain cs where rec: "nodes_succeed cfg nodes ns st w2 = Some (s1, w1, cs)"
    and c: "calls1 = c2 @ cs"
    by (cases "nodes_succeed cfg nodes ns st w2") auto
  from Cons.IH[OF rec] run_node_calls_names[OF rn] c show ?case by auto
qed

text \<open>
  C1. Let the order be \<open>pre @ k # post\<close>, given explicitly (or as the key order of the
  node map when no order is passed). Suppose the nodes of \<open>pre\<close> each return, every one
  on the state the one before it returned, ending in \<open>s1\<close> without error; \<open>k\<close> is in
  the node map; and all \<open>max_retries\<close> attempts of \<open>k\<close> raise, the first on \<open>s1\<close> with
  \<open>current_step\<close> set, every next one on the state object the attempt before left,
  the last one raising \<open>e\<close> and leaving \<open>st\<close>. Then \<open>run_graph\<close> returns \<open>st\<close> with nothing
  changed but \<open>error\<close>, which holds the node's failure message and is non-empty: what
  the nodes before \<open>k\<close> and the attempts of \<open>k\<close> wrote is all there. The calls of the run
  are those of \<open>pre\<close> followed by the attempts of \<open>k\<close>: no node of \<open>post\<close> is invoked.
\<close>

theorem run_graph_stops_at_failed_node:
  assumes "nodes_succeed cfg nodes pre s w = Some (s1, w1, calls1)"
    and "\<not> truthy_opt (error s1)"
    and "map_of nodes k = Some f"
    and "1 \<le> max_retries cfg"
    and "failed_attempts f k calls2 (s1\<lparr>current_step := Some k\<rparr>) w1 = Some (st, w2)"
    and "length calls2 = nat (max_retries cfg)"
    and "snd (snd (last calls2)) = Raises e st'"
  shows "run_graph cfg nodes s (Some (pre @ k # post)) w
           = (st\<lparr>error := Some (case e of
                   TimeoutError m \<Rightarrow>
                     ''Node '' @ [CHR 0x27] @ k @ [CHR 0x27] @ '' timed out after ''
                       @ str_int (timeout cfg) @ ''s''
                 | _ \<Rightarrow> ''Node '' @ [CHR 0x27] @ k @ [CHR 0x27] @ '' failed: '' @ str_exn e)\<rparr>,
              w2, calls1 @ calls2)
       \<and> (map fst nodes = pre @ k # post \<longrightarrow>
            run_graph cfg nodes s None w = run_graph cfg nodes s (Some (pre @ k # post)) w)
       \<and> truthy_opt (error (fst (run_graph cfg nodes s (Some (pre @ k # post)) w)))
       \<and> (\<forall>c \<in> set calls1. fst c \<in> set pre)
       \<and> (\<forall>c \<in> set calls2. fst c = k)"
proof -
  let ?msg = "case e of
                TimeoutError m \<Rightarrow>
                  ''Node '' @ [CHR 0x27] @ k @ [CHR 0x27] @ '' timed out after ''
                    @ str_int (timeout cfg) @ ''s''
              | _ \<Rightarrow> ''Node '' @ [CHR 0x27] @ k @ [CHR 0x27] @ '' failed: '' @ str_exn e"
  have msg: "node_error_message cfg k e = ?msg"
    by (cases e) (simp_all add: node_error_message_def quoted_def)
  have ne: "?msg \<noteq> []" by (cases e) simp_all
  have rn: "run_node cfg f s1 k w1 = (Raises e (st\<lparr>error := Some ?msg\<rparr>), w2, calls2)"
    using run_node_all_fail[OF assms(4,5,6,7)] msg by simp
  then have "run_graph_loop cfg nodes (k # post) s1 w1 = (st\<lparr>error := Some ?msg\<rparr>, w2, calls2)"
    using assms(2,3) by simp
  with nodes_succeed_append[OF assms(1), of "k # post"]
  have loop: "run_graph_loop cfg nodes (pre @ k # post) s w
                = (st\<lparr>error := Some ?msg\<rparr>, w2, calls1 @ calls2)"
    by simp
  have ord: "resolve_order nodes (Some (pre @ k # post)) = pre @ k # post"
    by (cases pre) (simp_all add: resolve_order_def)
  have 1: "run_graph cfg nodes s (Some (pre @ k # post)) w
             = (st\<lparr>error := Some ?msg\<rparr>, w2, calls1 @ calls2)"
    using loop ord by (simp add: run_graph_def)
  have 2: "map fst nodes = pre @ k # post \<longrightarrow>
            run_graph cfg nodes s None w = run_graph cfg nodes s (Some (pre @ k # post)) w"
    using ord by (simp add: run_graph_def resolve_order_def)
  have 3: "truthy_opt (error (fst (run_graph cfg nodes s (Some (pre @ k # post)) w)))"
    using 1 ne by simp
  from 1 2 3 nodes_succeed_names[OF assms(1)] failed_attempts_names[OF assms(5)]
  show ?thesis by (intro conjI)
qed

lemmas runner_example_states =
  after_node1_def stumbled_def stumble_calls_def after_validate_def node_returns_def
  numeral_3_eq_3

theorem run_graph_stops_at_failed_node_witness:
  "nodes_succeed default_RunnerConfig stumble_nodes [''node1''] (new_GraphState ''test-8'') ()
     = Some (after_node1, (),
             [(''node1'', (new_GraphState ''test-8'')\<lparr>current_step := Some ''node1''\<rparr>, Returns after_node1)])
   \<and> \<not> truthy_opt (error after_node1)
   \<and> map_of stumble_nodes ''stumble'' = Some stumbling_node
   \<and> 1 \<le> max_retries default_RunnerConfig
   \<and> failed_attempts stumbling_node ''stumble'' stumble_calls
        (after_node1\<lparr>current_step := Some ''stumble''\<rparr>) () = Some (stumbled 3, ())
   \<and> length stumble_calls = nat (max_retries default_RunnerConfig)
   \<and> snd (snd (last stumble_calls)) = Raises (Exception ''Intentional error'') (stumbled 3)
   \<and> run_graph default_RunnerConfig stumble_nodes (new_GraphState ''test-8'')
        (Some [''node1'', ''stumble'', ''node3'']) ()
       = (\<lparr>conversation_id = ''test-8'',
            messages = [JStr ''partial'', JStr ''partial'', JStr ''partial''],
            metadata = [(''node1'', JBool True)], checkpoints = [],
            current_step = Some ''stumble'',
            error = Some (''Node '' @ [CHR 0x27] @ ''stumble'' @ [CHR 0x27] @ '' failed: Intentional error'')\<rparr>,
          (),
          (''node1'', (new_GraphState ''test-8'')\<lparr>current_step := Some ''node1''\<rparr>, Returns after_node1)
            # stumble_calls)"
proof -
  have h1: "nodes_succeed default_RunnerConfig stumble_nodes [''node1''] (new_GraphState ''test-8'') ()
     = Some (after_node1, (),
             [(''node1'', (new_GraphState ''test-8'')\<lparr>current_step := Some ''node1''\<rparr>, Returns after_node1)])"
    by (simp add: runner_example_defs runner_example_states)
  have h2: "\<not> truthy_opt (error after_node1)" by (simp add: after_node1_def)
  have h3: "map_of stumble_nodes ''stumble'' = Some stumbling_node" by (simp add: stumble_nodes_def)
  have h4: "1 \<le> max_retries default_RunnerConfig" by (simp add: default_RunnerConfig_def)
  have h5: "failed_attempts stumbling_node ''stumble'' stumble_calls
        (after_node1\<lparr>current_step := Some ''stumble''\<rparr>) () = Some (stumbled 3, ())"
    by (simp add: runner_example_states stumbling_node_def numeral_3_eq_3 numeral_2_eq_2)
  have h6: "length stumble_calls = nat (max_retries default_RunnerConfig)"
    by (simp add: stumble_calls_def default_RunnerConfig_def)
  have h7: "snd (snd (last stumble_calls)) = Raises (Exception ''Intentional error'') (stumbled 3)"
    by (simp add: stumble_calls_def)
  have st: "stumbled 3 = \<lparr>conversation_id = ''test-8'',
            messages = [JStr ''partial'', JStr ''partial'', JStr ''partial''],
            metadata = [(''node1'', JBool True)], checkpoints = [],
            current_step = Some ''stumble'', error = None\<rparr>"
    by (simp add: stumbled_def numeral_3_eq_3)
  from run_graph_stops_at_failed_node[OF h1 h2 h3 h4 h5 h6 h7, of "[''node3'']"]
  have "run_graph default_RunnerConfig stumble_nodes (new_GraphState ''test-8'')
        (Some [''node1'', ''stumble'', ''node3'']) ()
       = ((stumbled 3)\<lparr>error := Some (''Node '' @ [CHR 0x27] @ ''stumble'' @ [CHR 0x27] @ '' failed: Intentional error'')\<rparr>,
          (),
          (''node1'', (new_GraphState ''test-8'')\<lparr>current_step := Some ''node1''\<rparr>, Returns after_node1)
            # stumble_calls)"
    by simp
  with h1 h2 h3 h4 h5 h6 h7 st show ?thesis by simp
qed

text \<open>
  C2, as stated, fails where the next name is absent from the node map. After
  \<open>validate_node\<close> has recorded "Missing conversation\_id" and returned, the loop meets
  the unknown name \<open>ghost\<close>; the membership test comes before the error test, so the
  recorded message is replaced by the not-found message.
\<close>

theorem run_graph_overwrites_error_counterexample:
  "nodes_succeed default_RunnerConfig validate_nodes [''validate''] (new_GraphState []) ()
     = Some (after_validate, (),
             [(''validate'', (new_GraphState [])\<lparr>current_step := Some ''validate''\<rparr>, Returns after_validate)])
   \<and> error after_validate = Some ''Missing conversation_id''
   \<and> map_of validate_nodes ''ghost'' = None
   \<and> error (fst (run_graph default_RunnerConfig validate_nodes (new_GraphState [])
                 (Some [''validate'', ''ghost'']) ()))
       = Some (''Node '' @ [CHR 0x27] @ ''ghost'' @ [CHR 0x27] @ '' not found in graph'')
   \<and> error (fst (run_graph default_RunnerConfig validate_nodes (new_GraphState [])
                 (Some [''validate'', ''ghost'']) ()))
       \<noteq> error after_validate"
  by (simp add: runner_example_defs runner_example_states)

text \<open>
  C2, amended. At every position of the order that the run reaches (the nodes before
  it each returned) with a non-empty \<open>error\<close> in the state: \<open>run_graph\<close> stops there. It
  invokes no further node: the world and the calls are those of the nodes before. It
  returns the state as it stands, with the error message unchanged when the next name
  is in the node map, and with only the error message replaced by the not-found
  message for that name when it is absent.
\<close>

theorem run_graph_stops_on_recorded_error:
  assumes "nodes_succeed cfg nodes pre s w = Some (s1, w1, calls1)"
    and "truthy_opt (error s1)"
  shows "run_graph cfg nodes s (Some (pre @ n # post)) w
           = (case map_of nodes n of
                None \<Rightarrow> s1\<lparr>error := Some (''Node '' @ [CHR 0x27] @ n @ [CHR 0x27] @ '' not found in graph'')\<rparr>
              | Some f \<Rightarrow> s1,
              w1, calls1)"
proof -
  have "run_graph_loop cfg nodes (n # post) s1 w1
          = (case map_of nodes n of
                None \<Rightarrow> s1\<lparr>error := Some (''Node '' @ [CHR 0x27] @ n @ [CHR 0x27] @ '' not found in graph'')\<rparr>
              | Some f \<Rightarrow> s1,
             w1, [])"
    using assms(2) by (simp add: quoted_def split: option.splits)
  with nodes_succeed_append[OF assms(1), of "n # post"]
  have "run_graph_loop cfg nodes (pre @ n # post) s w
          = (case map_of nodes n of
                None \<Rightarrow> s1\<lparr>error := Some (''Node '' @ [CHR 0x27] @ n @ [CHR 0x27] @ '' not found in graph'')\<rparr>
              | Some f \<Rightarrow> s1,
             w1, calls1)"
    by simp
  moreover have "resolve_order nodes (Some (pre @ n # post)) = pre @ n # post"
    by (cases pre) (simp_all add: resolve_order_def)
  ultimately show ?thesis by (simp add: run_graph_def)
qed

theorem run_graph_stops_on_recorded_error_witness:
  "nodes_succeed default_RunnerConfig validate_nodes [''validate''] (new_GraphState []) ()
     = Some (after_validate, (),
             [(''validate'', (new_GraphState [])\<lparr>current_step := Some ''validate''\<rparr>, Returns after_validate)])
   \<and> truthy_opt (error after_validate)
   \<and> run_graph default_RunnerConfig validate_nodes (new_GraphState [])
        (Some [''validate'', ''node3'', ''validate'']) ()
       = (after_validate, (),
          [(''validate'', (new_GraphState [])\<lparr>current_step := Some ''validate''\<rparr>, Returns after_validate)])
   \<and> run_graph default_RunnerConfig validate_nodes (new_GraphState [])
        (Some [''validate'', ''ghost'', ''node3'']) ()
       = (after_validate\<lparr>error := Some (''Node '' @ [CHR 0x27] @ ''ghost'' @ [CHR 0x27] @ '' not found in graph'')\<rparr>,
          (),
          [(''validate'', (new_GraphState [])\<lparr>current_step := Some ''validate''\<rparr>, Returns after_validate)])"
proof -
  have h1: "nodes_succeed default_RunnerConfig validate_nodes [''validate''] (new_GraphState []) ()
     = Some (after_validate, (),
             [(''validate'', (new_GraphState [])\<lparr>current_step := Some ''validate''\<rparr>, Returns after_validate)])"
    by (simp add: runner_example_defs runner_example_states)
  have h2: "truthy_opt (error after_validate)" by (simp add: after_validate_def)
  have m1: "map_of validate_nodes ''node3'' = Some node3" by (simp add: validate_nodes_def)
  have m2: "map_of validate_nodes ''ghost'' = None" by (simp add: validate_nodes_def)
  from run_graph_stops_on_recorded_error[OF h1 h2, of "''node3''" "[''validate'']"]
       run_graph_stops_on_recorded_error[OF h1 h2, of "''ghost''" "[''node3'']"]
       h1 h2 m1 m2
  show ?thesis by simp
qed

text \<open>
  C9. \<open>run_conditional\<close> always returns a state. When the condition raises, the
  state object comes back with \<open>error\<close> set to "Conditional 'name' failed: cause" and
  no node is invoked. When the selected branch fails after its retries, \<open>run_node\<close> has
  recorded its own "Node 'name\_true' ..." message in \<open>error\<close>, and the state object
  comes back with that message overwritten by the conditional's message; told from
  the branch function, the state is the one its last failed attempt left. When the
  branch returns, its result is returned.
\<close>

theorem run_conditional_never_raises:
  "(\<exists>r. fst (run_conditional cfg cond tn fn s name w) = Returns r)
   \<and> (\<forall>e s' w'. cond s w = (CondRaises e s', w') \<longrightarrow>
         run_conditional cfg cond tn fn s name w
           = (Returns (s'\<lparr>error := Some (''Conditional '' @ [CHR 0x27] @ name @ [CHR 0x27]
                                             @ '' failed: '' @ str_exn e)\<rparr>), w', []))
   \<and> (\<forall>b s' w' e s'' w'' calls.
         cond s w = (CondReturns b s', w')
         \<and> run_node cfg (if b then tn else fn) s'
              (if b then name @ ''_true'' else name @ ''_false'') w' = (Raises e s'', w'', calls)
         \<longrightarrow> error s'' = Some (case e of
                   TimeoutError m \<Rightarrow>
                     ''Node '' @ [CHR 0x27] @ (if b then name @ ''_true'' else name @ ''_false'')
                       @ [CHR 0x27] @ '' timed out after '' @ str_int (timeout cfg) @ ''s''
                 | _ \<Rightarrow> ''Node '' @ [CHR 0x27] @ (if b then name @ ''_true'' else name @ ''_false'')
                       @ [CHR 0x27] @ '' failed: '' @ str_exn e)
             \<and> run_conditional cfg cond tn fn s name w
                 = (Returns (s''\<lparr>error := Some (''Conditional '' @ [CHR 0x27] @ name @ [CHR 0x27]
                                                   @ '' failed: '' @ str_exn e)\<rparr>), w'', calls))
   \<and> (\<forall>b s' w' r w'' calls.
         cond s w = (CondReturns b s', w')
         \<and> run_node cfg (if b then tn else fn) s'
              (if b then name @ ''_true'' else name @ ''_false'') w' = (Returns r, w'', calls)
         \<longrightarrow> run_conditional cfg cond tn fn s name w = (Returns r, w'', calls))
   \<and> (\<forall>b s' w' calls st w'' e st'.
         cond s w = (CondReturns b s', w')
         \<and> 1 \<le> max_retries cfg
         \<and> failed_attempts (if b then tn else fn)
              (if b then name @ ''_true'' else name @ ''_false'') calls
              (s'\<lparr>current_step := Some (if b then name @ ''_true'' else name @ ''_false'')\<rparr>) w'
             = Some (st, w'')
         \<and> length calls = nat (max_retries cfg)
         \<and> snd (snd (last calls)) = Raises e st'
         \<longrightarrow> run_conditional cfg cond tn fn s name w
               = (Returns (st\<lparr>error := Some (''Conditional '' @ [CHR 0x27] @ name @ [CHR 0x27]
                                                @ '' failed: '' @ str_exn e)\<rparr>), w'', calls))"
proof -
  have 1: "\<exists>r. fst (run_conditional cfg cond tn fn s name w) = Returns r"
    by (simp add: run_conditional_def split: prod.splits outcome.splits)
  have 2: "run_conditional cfg cond tn fn s name w
           = (Returns (s'\<lparr>error := Some (''Conditional '' @ [CHR 0x27] @ name @ [CHR 0x27]
                                             @ '' failed: '' @ str_exn e)\<rparr>), w', [])"
    if "cond s w = (CondRaises e s', w')" for e s' w'
    using that
    by (simp add: run_conditional_def conditional_try_def conditional_error_message_def quoted_def)
  have 3: "error s'' = Some (case e of
                   TimeoutError m \<Rightarrow>
                     ''Node '' @ [CHR 0x27] @ (if b then name @ ''_true'' else name @ ''_false'')
                       @ [CHR 0x27] @ '' timed out after '' @ str_int (timeout cfg) @ ''s''
                 | _ \<Rightarrow> ''Node '' @ [CHR 0x27] @ (if b then name @ ''_true'' else name @ ''_false'')
                       @ [CHR 0x27] @ '' failed: '' @ str_exn e)
             \<and> run_conditional cfg cond tn fn s name w
                 = (Returns (s''\<lparr>error := Some (''Conditional '' @ [CHR 0x27] @ name @ [CHR 0x27]
                                                   @ '' failed: '' @ str_exn e)\<rparr>), w'', calls)"
    if c: "cond s w = (CondReturns b s', w')"
      and r: "run_node cfg (if b then tn else fn) s'
              (if b then name @ ''_true'' else name @ ''_false'') w' = (Raises e s'', w'', calls)"
    for b s' w' e s'' w'' calls
  proof
    have "node_error_message cfg (if b then name @ ''_true'' else name @ ''_false'') e
            = (case e of
                   TimeoutError m \<Rightarrow>
                     ''Node '' @ [CHR 0x27] @ (if b then name @ ''_true'' else name @ ''_false'')
                       @ [CHR 0x27] @ '' timed out after '' @ str_int (timeout cfg) @ ''s''
                 | _ \<Rightarrow> ''Node '' @ [CHR 0x27] @ (if b then name @ ''_true'' else name @ ''_false'')
                       @ [CHR 0x27] @ '' failed: '' @ str_exn e)"
      by (cases e) (simp_all add: node_error_message_def quoted_def)
    with run_node_Raises(3)[OF r]
    show "error s'' = Some (case e of
                   TimeoutError m \<Rightarrow>
                     ''Node '' @ [CHR 0x27] @ (if b then name @ ''_true'' else name @ ''_false'')
                       @ [CHR 0x27] @ '' timed out after '' @ str_int (timeout cfg) @ ''s''
                 | _ \<Rightarrow> ''Node '' @ [CHR 0x27] @ (if b then name @ ''_true'' else name @ ''_false'')
                       @ [CHR 0x27] @ '' failed: '' @ str_exn e)"
      by simp
    show "run_conditional cfg cond tn fn s name w
                 = (Returns (s''\<lparr>error := Some (''Conditional '' @ [CHR 0x27] @ name @ [CHR 0x27]
                                                   @ '' failed: '' @ str_exn e)\<rparr>), w'', calls)"
      using c r
      by (simp add: run_conditional_def conditional_try_def conditional_error_message_def quoted_def)
  qed
  have 4: "run_conditional cfg cond tn fn s name w = (Returns r, w'', calls)"
    if "cond s w = (CondReturns b s', w')"
      and "run_node cfg (if b then tn else fn) s'
              (if b then name @ ''_true'' else name @ ''_false'') w' = (Returns r, w'', calls)"
    for b s' w' r w'' calls
    using that by (simp add: run_conditional_def conditional_try_def)
  have 5: "run_conditional cfg cond tn fn s name w
               = (Returns (st\<lparr>error := Some (''Conditional '' @ [CHR 0x27] @ name @ [CHR 0x27]
                                                @ '' failed: '' @ str_exn e)\<rparr>), w'', calls)"
    if c: "cond s w = (CondReturns b s', w')"
      and m: "1 \<le> max_retries cfg"
      and fa: "failed_attempts (if b then tn else fn)
              (if b then name @ ''_true'' else name @ ''_false'') calls
              (s'\<lparr>current_step := Some (if b then name @ ''_true'' else name @ ''_false'')\<rparr>) w'
             = Some (st, w'')"
      and len: "length calls = nat (max_retries cfg)"
      and lst: "snd (snd (last calls)) = Raises e st'"
    for b s' w' calls st w'' e st'
  proof -
    note rn = run_node_all_fail[OF m fa len lst]
    from 3[OF c rn] show ?thesis by simp
  qed
  have a2: "\<forall>e s' w'. cond s w = (CondRaises e s', w') \<longrightarrow>
         run_conditional cfg cond tn fn s name w
           = (Returns (s'\<lparr>error := Some (''Conditional '' @ [CHR 0x27] @ name @ [CHR 0x27]
                                             @ '' failed: '' @ str_exn e)\<rparr>), w', [])"
    using 2 by blast
  have a3: "\<forall>b s' w' e s'' w'' calls.
         cond s w = (CondReturns b s', w')
         \<and> run_node cfg (if b then tn else fn) s'
              (if b then name @ ''_true'' else name @ ''_false'') w' = (Raises e s'', w'', calls)
         \<longrightarrow> error s'' = Some (case e of
                   TimeoutError m \<Rightarrow>
                     ''Node '' @ [CHR 0x27] @ (if b then name @ ''_true'' else name @ ''_false'')
                       @ [CHR 0x27] @ '' timed out after '' @ str_int (timeout cfg) @ ''s''
                 | _ \<Rightarrow> ''Node '' @ [CHR 0x27] @ (if b then name @ ''_true'' else name @ ''_false'')
                       @ [CHR 0x27] @ '' failed: '' @ str_exn e)
             \<and> run_conditional cfg cond tn fn s name w
                 = (Returns (s''\<lparr>error := Some (''Conditional '' @ [CHR 0x27] @ name @ [CHR 0x27]
                                                   @ '' failed: '' @ str_exn e)\<rparr>), w'', calls)"
    using 3 by blast
  have a4: "\<forall>b s' w' r w'' calls.
         cond s w = (CondReturns b s', w')
         \<and> run_node cfg (if b then tn else fn) s'
              (if b then name @ ''_true'' else name @ ''_false'') w' = (Returns r, w'', calls)
         \<longrightarrow> run_conditional cfg cond tn fn s name w = (Returns r, w'', calls)"
    using 4 by blast
  have a5: "\<forall>b s' w' calls st w'' e st'.
         cond s w = (CondReturns b s', w')
         \<and> 1 \<le> max_retries cfg
         \<and> failed_attempts (if b then tn else fn)
              (if b then name @ ''_true'' else name @ ''_false'') calls
              (s'\<lparr>current_step := Some (if b then name @ ''_true'' else name @ ''_false'')\<rparr>) w'
             = Some (st, w'')
         \<and> length calls = nat (max_retries cfg)
         \<and> snd (snd (last calls)) = Raises e st'
         \<longrightarrow> run_conditional cfg cond tn fn s name w
               = (Returns (st\<lparr>error := Some (''Conditional '' @ [CHR 0x27] @ name @ [CHR 0x27]
                                                @ '' failed: '' @ str_exn e)\<rparr>), w'', calls)"
    using 5 by blast
  from 1 a2 a3 a4 a5 show ?thesis by (intro conjI)
qed

theorem run_conditional_never_raises_witness:
  "broken_condition (new_GraphState ''test-6'') () = (CondRaises (Exception ''bad flag'') (new_GraphState ''test-6''), ())
   \<and> run_conditional default_RunnerConfig broken_condition node1 node3 (new_GraphState ''test-6'') ''conditional'' ()
       = (Returns \<lparr>conversation_id = ''test-6'', messages = [], metadata = [], checkpoints = [],
                   current_step = None,
                   error = Some (''Conditional '' @ [CHR 0x27] @ ''conditional'' @ [CHR 0x27]
                                 @ '' failed: bad flag'')\<rparr>,
          (), [])
   \<and> flag_condition (new_GraphState ''test-7'') () = (CondReturns False (new_GraphState ''test-7''), ())
   \<and> fst (run_node default_RunnerConfig stumbling_node (new_GraphState ''test-7'') ''conditional_false'' ())
       = Raises (Exception ''Intentional error'')
           \<lparr>conversation_id = ''test-7'',
            messages = [JStr ''partial'', JStr ''partial'', JStr ''partial''],
            metadata = [], checkpoints = [], current_step = Some ''conditional_false'',
            error = Some (''Node '' @ [CHR 0x27] @ ''conditional_false'' @ [CHR 0x27]
                          @ '' failed: Intentional error'')\<rparr>
   \<and> fst (run_conditional default_RunnerConfig flag_condition node1 stumbling_node
             (new_GraphState ''test-7'') ''conditional'' ())
       = Returns \<lparr>conversation_id = ''test-7'',
            messages = [JStr ''partial'', JStr ''partial'', JStr ''partial''],
            metadata = [], checkpoints = [], current_step = Some ''conditional_false'',
            error = Some (''Conditional '' @ [CHR 0x27] @ ''conditional'' @ [CHR 0x27]
                          @ '' failed: Intentional error'')\<rparr>"
proof -
  let ?s6 = "new_GraphState ''test-6''"
  let ?s7 = "new_GraphState ''test-7''"
  let ?rn = "run_node default_RunnerConfig (if False then node1 else stumbling_node) ?s7
               (if False then ''conditional'' @ ''_true'' else ''conditional'' @ ''_false'') ()"
  let ?s7' = "\<lparr>conversation_id = ''test-7'',
            messages = [JStr ''partial'', JStr ''partial'', JStr ''partial''],
            metadata = [], checkpoints = [], current_step = Some ''conditional_false'',
            error = Some (''Node '' @ [CHR 0x27] @ ''conditional_false'' @ [CHR 0x27]
                          @ '' failed: Intentional error'')\<rparr>"
  have c1: "broken_condition ?s6 () = (CondRaises (Exception ''bad flag'') ?s6, ())"
    by (simp add: broken_condition_def)
  have c2: "flag_condition ?s7 () = (CondReturns False ?s7, ())"
    by (simp add: flag_condition_def new_GraphState_def)
  have h: "?rn = (Raises (Exception ''Intentional error'') ?s7', (), snd (snd ?rn))"
    by (simp add: runner_example_defs)
  note t1 = run_conditional_never_raises[of default_RunnerConfig broken_condition node1 node3
          ?s6 "''conditional''" "()", THEN conjunct2, THEN conjunct1, rule_format, OF c1]
  note t2 = run_conditional_never_raises[of default_RunnerConfig flag_condition node1 stumbling_node
          ?s7 "''conditional''" "()", THEN conjunct2, THEN conjunct2, THEN conjunct1, rule_format,
          OF conjI, OF c2 h]
  from t2 have r2: "fst (run_conditional default_RunnerConfig flag_condition node1 stumbling_node ?s7 ''conditional'' ())
      = Returns (?s7'\<lparr>error := Some (''Conditional '' @ [CHR 0x27] @ ''conditional'' @ [CHR 0x27]
                          @ '' failed: Intentional error'')\<rparr>)"
    by simp
  have h': "fst ?rn = Raises (Exception ''Intentional error'') ?s7'"
    using arg_cong[OF h, of fst] by (simp only: fst_conv)
  show ?thesis using c1 t1 c2 h' r2
    by (simp add: new_GraphState_def)
qed

section \<open>Properties of the policy enforcers\<close>

lemma enforce_log_head:
  "\<exists>rest. snd (snd (enforce post e a r c w)) = ([], a, r, c) # rest \<and> (\<forall>x \<in> set rest. fst x \<noteq> [])"
  by (cases e) (auto simp: under_def split: prod.splits sum.splits)

lemma filter_under_same:
  assumes "calls = ([], a, r, c) # rest" and "\<forall>x \<in> set rest. fst x \<noteq> []"
  shows "filter (\<lambda>x. fst x = [sd]) (under sd calls) = [([sd], a, r, c)]"
proof -
  have "filter (\<lambda>x. fst x = [sd]) (under sd rest) = []"
    using assms(2) by (induction rest) (auto simp: under_def)
  with assms(1) show ?thesis by (simp add: under_def)
qed

lemma filter_under_other:
  assumes "sd \<noteq> sd'"
  shows "filter (\<lambda>x. take 1 (fst x) = [sd']) (under sd calls) = []"
  using assms by (induction calls) (auto simp: under_def)

lemma filter_under_other_exact:
  assumes "sd \<noteq> sd'"
  shows "filter (\<lambda>x. fst x = [sd']) (under sd calls) = []"
  using assms by (induction calls) (auto simp: under_def)

text \<open>
  C4. For every primary and fallback enforcer and every action, resource and context:
  if \<open>primary.enforce\<close> returns a value, the composite returns that value in the world
  the primary left, the primary was called once with these arguments, and no call at
  or below the fallback is logged; if \<open>primary.enforce\<close> raises, the composite returns
  what \<open>fallback.enforce\<close> returns when run in the world the primary left, and primary
  and fallback were each called exactly once, with the same arguments.
\<close>

theorem composite_enforce_primary_then_fallback:
  "(\<forall>v w1 calls1.
      enforce post primary a r c w = (Inr v, w1, calls1) \<longrightarrow>
        fst (enforce post (CompositePolicyEnforcer primary fallback) a r c w) = Inr v
        \<and> fst (snd (enforce post (CompositePolicyEnforcer primary fallback) a r c w)) = w1
        \<and> filter (\<lambda>x. fst x = [Primary])
             (snd (snd (enforce post (CompositePolicyEnforcer primary fallback) a r c w)))
           = [([Primary], a, r, c)]
        \<and> filter (\<lambda>x. take 1 (fst x) = [Fallback])
             (snd (snd (enforce post (CompositePolicyEnforcer primary fallback) a r c w)))
           = [])
   \<and> (\<forall>e w1 calls1.
      enforce post primary a r c w = (Inl e, w1, calls1) \<longrightarrow>
        fst (enforce post (CompositePolicyEnforcer primary fallback) a r c w)
          = fst (enforce post fallback a r c w1)
        \<and> fst (snd (enforce post (CompositePolicyEnforcer primary fallback) a r c w))
          = fst (snd (enforce post fallback a r c w1))
        \<and> filter (\<lambda>x. fst x = [Primary])
             (snd (snd (enforce post (CompositePolicyEnforcer primary fallback) a r c w)))
           = [([Primary], a, r, c)]
        \<and> filter (\<lambda>x. fst x = [Fallback])
             (snd (snd (enforce post (CompositePolicyEnforcer primary fallback) a r c w)))
           = [([Fallback], a, r, c)])"
proof (intro conjI allI impI)
  fix v w1 calls1
  assume p: "enforce post primary a r c w = (Inr v, w1, calls1)"
  from enforce_log_head[of post primary a r c w] p
  obtain rest where l: "calls1 = ([], a, r, c) # rest" "\<forall>x \<in> set rest. fst x \<noteq> []" by auto
  have comp: "enforce post (CompositePolicyEnforcer primary fallback) a r c w
              = (Inr v, w1, ([], a, r, c) # under Primary calls1)"
    using p by simp
  show "fst (enforce post (CompositePolicyEnforcer primary fallback) a r c w) = Inr v"
    by (simp only: comp fst_conv)
  show "fst (snd (enforce post (CompositePolicyEnforcer primary fallback) a r c w)) = w1"
    by (simp only: comp fst_conv snd_conv)
  show "filter (\<lambda>x. fst x = [Primary])
          (snd (snd (enforce post (CompositePolicyEnforcer primary fallback) a r c w)))
        = [([Primary], a, r, c)]"
    using filter_under_same[OF l, of Primary] by (simp only: comp snd_conv) simp
  show "filter (\<lambda>x. take 1 (fst x) = [Fallback])
          (snd (snd (enforce post (CompositePolicyEnforcer primary fallback) a r c w)))
        = []"
    using filter_under_other[of Primary Fallback calls1] by (simp only: comp snd_conv) simp
next
  fix e w1 calls1
  assume p: "enforce post primary a r c w = (Inl e, w1, calls1)"
  from enforce_log_head[of post primary a r c w] p
  obtain rest where l: "calls1 = ([], a, r, c) # rest" "\<forall>x \<in> set rest. fst x \<noteq> []" by auto
  obtain rf w2 calls2 where f: "enforce post fallback a r c w1 = (rf, w2, calls2)"
    by (cases "enforce post fallback a r c w1")
  from enforce_log_head[of post fallback a r c w1] f
  obtain rest2 where l2: "calls2 = ([], a, r, c) # rest2" "\<forall>x \<in> set rest2. fst x \<noteq> []" by auto
  have comp: "enforce post (CompositePolicyEnforcer primary fallback) a r c w
              = (rf, w2, ([], a, r, c) # under Primary calls1 @ under Fallback calls2)"
    using p f by simp
  show "fst (enforce post (CompositePolicyEnforcer primary fallback) a r c w)
          = fst (enforce post fallback a r c w1)"
    by (simp only: comp f fst_conv)
  show "fst (snd (enforce post (CompositePolicyEnforcer primary fallback) a r c w))
          = fst (snd (enforce post fallback a r c w1))"
    by (simp only: comp f fst_conv snd_conv)
  show "filter (\<lambda>x. fst x = [Primary])
          (snd (snd (enforce post (CompositePolicyEnforcer primary fallback) a r c w)))
        = [([Primary], a, r, c)]"
    using filter_under_same[OF l, of Primary] filter_under_other_exact[of Fallback Primary calls2]
    by (simp only: comp snd_conv) simp
  show "filter (\<lambda>x. fst x = [Fallback])
          (snd (snd (enforce post (CompositePolicyEnforcer primary fallback) a r c w)))
        = [([Fallback], a, r, c)]"
    using filter_under_same[OF l2, of Fallback] filter_under_other_exact[of Primary Fallback calls1]
    by (simp only: comp snd_conv) simp
qed

lemmas policy_example_defs =
  example_post_def example_opa_def example_composite_def new_OPAHttp_def rstrip_slash_def
  lstrip_slash_def opa_enforce_def opa_input_data_def under_def

theorem composite_enforce_primary_then_fallback_witness:
  "fst (enforce example_post (OPAHttpPolicyEnforcer example_opa) ''read'' ''document1'' None ()) = Inr (JBool True)
   \<and> enforce example_post example_composite ''read'' ''document1'' None ()
       = (Inr (JBool True), (),
          [([], ''read'', ''document1'', None), ([Primary], ''read'', ''document1'', None)])
   \<and> fst (enforce example_post (OPAHttpPolicyEnforcer example_opa) ''execute'' ''conversation/c1'' None ())
       = Inl (ClientError ''Connection failed'')
   \<and> enforce example_post example_composite ''execute'' ''conversation/c1'' None ()
       = (Inr (JBool False), (),
          [([], ''execute'', ''conversation/c1'', None), ([Primary], ''execute'', ''conversation/c1'', None),
           ([Fallback], ''execute'', ''conversation/c1'', None)])"
  using composite_enforce_primary_then_fallback[of example_post "OPAHttpPolicyEnforcer example_opa"
          "''read''" "''document1''" None "()" LocalDenyEnforcer]
        composite_enforce_primary_then_fallback[of example_post "OPAHttpPolicyEnforcer example_opa"
          "''execute''" "''conversation/c1''" None "()" LocalDenyEnforcer]
  by (simp add: policy_example_defs)

text \<open>
  C8. For the request that \<open>enforce\<close> posts: a 200 response whose body is an object
  with a boolean \<open>result\<close> yields that boolean; a response with any other status
  yields \<open>False\<close>; and an exception from the HTTP client (connectivity, timeout) is
  not turned into a decision but raised to the caller.
\<close>

theorem opa_enforce_decisions:
  "(\<forall>kvs b w'.
      post (opa_url self @ ''/'' @ policy_path self) (opa_input_data action resource ctx)
           (opa_timeout self) w = (HttpResponse 200 (Inr (JObj kvs)), w')
      \<and> map_of kvs ''result'' = Some (JBool b)
      \<longrightarrow> opa_enforce post self action resource ctx w = (Inr (JBool b), w'))
   \<and> (\<forall>status body w'.
      post (opa_url self @ ''/'' @ policy_path self) (opa_input_data action resource ctx)
           (opa_timeout self) w = (HttpResponse status body, w')
      \<and> status \<noteq> 200
      \<longrightarrow> opa_enforce post self action resource ctx w = (Inr (JBool False), w'))
   \<and> (\<forall>e w'.
      post (opa_url self @ ''/'' @ policy_path self) (opa_input_data action resource ctx)
           (opa_timeout self) w = (HttpFails e, w')
      \<longrightarrow> opa_enforce post self action resource ctx w = (Inl e, w'))"
  by (simp add: opa_enforce_def)

theorem opa_enforce_decisions_witness:
  "example_post (opa_url example_opa @ ''/'' @ policy_path example_opa)
       (opa_input_data ''read'' ''document1'' None) (opa_timeout example_opa) ()
     = (HttpResponse 200 (Inr (JObj [(''result'', JBool True)])), ())
   \<and> opa_enforce example_post example_opa ''read'' ''document1'' None () = (Inr (JBool True), ())
   \<and> example_post (opa_url example_opa @ ''/'' @ policy_path example_opa)
       (opa_input_data ''write'' ''document1'' None) (opa_timeout example_opa) ()
     = (HttpResponse 500 (Inr JNull), ())
   \<and> opa_enforce example_post example_opa ''write'' ''document1'' None () = (Inr (JBool False), ())
   \<and> example_post (opa_url example_opa @ ''/'' @ policy_path example_opa)
       (opa_input_data ''delete'' ''document1'' None) (opa_timeout example_opa) ()
     = (HttpFails (ClientError ''Connection failed''), ())
   \<and> opa_enforce example_post example_opa ''delete'' ''document1'' None ()
     = (Inl (ClientError ''Connection failed''), ())"
proof -
  have p1: "example_post (opa_url example_opa @ ''/'' @ policy_path example_opa)
       (opa_input_data ''read'' ''document1'' None) (opa_timeout example_opa) ()
     = (HttpResponse 200 (Inr (JObj [(''result'', JBool True)])), ())"
    by (simp add: example_post_def)
  have p2: "example_post (opa_url example_opa @ ''/'' @ policy_path example_opa)
       (opa_input_data ''write'' ''document1'' None) (opa_timeout example_opa) ()
     = (HttpResponse 500 (Inr JNull), ())"
    by (simp add: example_post_def opa_input_data_def)
  have p3: "example_post (opa_url example_opa @ ''/'' @ policy_path example_opa)
       (opa_input_data ''delete'' ''document1'' None) (opa_timeout example_opa) ()
     = (HttpFails (ClientError ''Connection failed''), ())"
    by (simp add: example_post_def opa_input_data_def)
  have m: "map_of [(''result'', JBool True)] ''result'' = Some (JBool True)" by simp
  note t1 = opa_enforce_decisions[of example_post example_opa "''read''" "''document1''" None "()",
              THEN conjunct1, rule_format, OF conjI, OF p1 m]
  have n: "(500::int) \<noteq> 200" by simp
  note t2 = opa_enforce_decisions[of example_post example_opa "''write''" "''document1''" None "()",
              THEN conjunct2, THEN conjunct1, rule_format, OF conjI, OF p2 n]
  note t3 = opa_enforce_decisions[of example_post example_opa "''delete''" "''document1''" None "()",
              THEN conjunct2, THEN conjunct2, rule_format, OF p3]
  from p1 t1 p2 t2 p3 t3 show ?thesis by (intro conjI)
qed

section \<open>Properties of the checkpoint store\<close>

lemma replicate_numeral_unfold: "replicate (numeral k) x = x # replicate (pred_numeral k) x"
  by (simp add: numeral_eq_Suc)

lemma map_of_generated_metadata:
  "map_of (generated_metadata now cid m) =
     (map_of m)(''timestamp'' \<mapsto> JStr (isoformat now), ''checkpoint_id'' \<mapsto> JStr cid)"
  by (simp add: generated_metadata_def update_conv')

text \<open>
  C6, amended. For every checkpoint id that is a file name the directory can hold,
  every clock reading, state and caller metadata: \<open>save\<close> succeeds, and \<open>load\<close>
  afterwards returns the document whose \<open>state\<close> is the state as it reads once \<open>save\<close>
  has left the caller's metadata dict (the state handed in, when it does not share
  that dict), and whose \<open>metadata\<close> has \<open>checkpoint_id\<close> equal to the id,
  \<open>timestamp\<close> equal to the clock reading in ISO format, every caller-supplied field
  under any other key with its value, and every caller-supplied key. The caller's
  dict, when not empty, ends up with the two generated fields in it.
\<close>

theorem save_load_roundtrip:
  assumes "storable_id cid"
  shows "(\<exists>dir'. fst (save dir now cid state md) = Inr dir'
            \<and> load dir' cid
                = Inr (Some (JObj [(''state'', state (case snd (save dir now cid state md) of
                                                       None \<Rightarrow> [] | Some m \<Rightarrow> m)),
                                   (''metadata'',
                                      JObj (generated_metadata now cid
                                              (case md of None \<Rightarrow> [] | Some m \<Rightarrow> m)))])))
       \<and> snd (save dir now cid state md)
           = (case md of
                None \<Rightarrow> None
              | Some m \<Rightarrow> if m = [] then Some [] else Some (generated_metadata now cid m))
       \<and> ((\<forall>m. state m = state []) \<longrightarrow>
             state (case snd (save dir now cid state md) of None \<Rightarrow> [] | Some m \<Rightarrow> m)
               = state (case md of None \<Rightarrow> [] | Some m \<Rightarrow> m))
       \<and> map_of (generated_metadata now cid (case md of None \<Rightarrow> [] | Some m \<Rightarrow> m))
             ''checkpoint_id'' = Some (JStr cid)
       \<and> map_of (generated_metadata now cid (case md of None \<Rightarrow> [] | Some m \<Rightarrow> m))
             ''timestamp'' = Some (JStr (isoformat now))
       \<and> (\<forall>k v. map_of (case md of None \<Rightarrow> [] | Some m \<Rightarrow> m) k = Some v
                  \<and> k \<noteq> ''timestamp'' \<and> k \<noteq> ''checkpoint_id''
              \<longrightarrow> map_of (generated_metadata now cid (case md of None \<Rightarrow> [] | Some m \<Rightarrow> m)) k
                    = Some v)
       \<and> (\<forall>k. k \<in> fst ` set (case md of None \<Rightarrow> [] | Some m \<Rightarrow> m)
              \<longrightarrow> map_of (generated_metadata now cid (case md of None \<Rightarrow> [] | Some m \<Rightarrow> m)) k
                    \<noteq> None)"
proof -
  from assms have nz: "CHR 0x00 \<notin> set cid" by (simp add: storable_id_def)
  have 1: "\<exists>dir'. fst (save dir now cid state md) = Inr dir'
            \<and> load dir' cid
                = Inr (Some (JObj [(''state'', state (case snd (save dir now cid state md) of
                                                       None \<Rightarrow> [] | Some m \<Rightarrow> m)),
                                   (''metadata'',
                                      JObj (generated_metadata now cid
                                              (case md of None \<Rightarrow> [] | Some m \<Rightarrow> m)))]))"
    using assms nz by (simp add: save_def Let_def load_def update_conv')
  have 2: "snd (save dir now cid state md)
           = (case md of
                None \<Rightarrow> None
              | Some m \<Rightarrow> if m = [] then Some [] else Some (generated_metadata now cid m))"
    by (simp add: save_def Let_def split: option.splits)
  have 3: "(\<forall>m. state m = state []) \<longrightarrow>
             state (case snd (save dir now cid state md) of None \<Rightarrow> [] | Some m \<Rightarrow> m)
               = state (case md of None \<Rightarrow> [] | Some m \<Rightarrow> m)"
    by metis
  have 4: "map_of (generated_metadata now cid (case md of None \<Rightarrow> [] | Some m \<Rightarrow> m))
             ''checkpoint_id'' = Some (JStr cid)"
    by (simp add: map_of_generated_metadata)
  have 5: "map_of (generated_metadata now cid (case md of None \<Rightarrow> [] | Some m \<Rightarrow> m))
             ''timestamp'' = Some (JStr (isoformat now))"
    by (simp add: map_of_generated_metadata)
  have 6: "\<forall>k v. map_of (case md of None \<Rightarrow> [] | Some m \<Rightarrow> m) k = Some v
                  \<and> k \<noteq> ''timestamp'' \<and> k \<noteq> ''checkpoint_id''
              \<longrightarrow> map_of (generated_metadata now cid (case md of None \<Rightarrow> [] | Some m \<Rightarrow> m)) k
                    = Some v"
    by (simp add: map_of_generated_metadata)
  have 7: "\<forall>k. k \<in> fst ` set (case md of None \<Rightarrow> [] | Some m \<Rightarrow> m)
              \<longrightarrow> map_of (generated_metadata now cid (case md of None \<Rightarrow> [] | Some m \<Rightarrow> m)) k
                    \<noteq> None"
    by (auto simp: map_of_generated_metadata dest: weak_map_of_SomeI)
  from 1 2 3 4 5 6 7 show ?thesis by (intro conjI)
qed

lemmas store_example_defs =
  save_def Let_def load_def storable_id_def generated_metadata_def isoformat_def zero_pad_def
  digit_char_def replicate_numeral_unfold time0_def time1_def note_metadata_def reused_metadata_def

theorem save_load_roundtrip_witness:
  "storable_id ''test-checkpoint-1''
   \<and> map_of note_metadata ''note'' = Some (JStr ''test'')
   \<and> fst (save [] time1 ''test-checkpoint-1'' (\<lambda>m. to_dict conv1_state) (Some note_metadata))
       = Inr [(''test-checkpoint-1'',
               Document (JObj [(''state'', to_dict conv1_state),
                               (''metadata'',
                                  JObj [(''note'', JStr ''test''),
                                        (''timestamp'', JStr ''2026-01-02T09:30:05.001500+00:00''),
                                        (''checkpoint_id'', JStr ''test-checkpoint-1'')])]))]
   \<and> load [(''test-checkpoint-1'',
               Document (JObj [(''state'', to_dict conv1_state),
                               (''metadata'',
                                  JObj [(''note'', JStr ''test''),
                                        (''timestamp'', JStr ''2026-01-02T09:30:05.001500+00:00''),
                                        (''checkpoint_id'', JStr ''test-checkpoint-1'')])]))]
        ''test-checkpoint-1''
       = Inr (Some (JObj [(''state'', to_dict conv1_state),
                          (''metadata'',
                             JObj [(''note'', JStr ''test''),
                                   (''timestamp'', JStr ''2026-01-02T09:30:05.001500+00:00''),
                                   (''checkpoint_id'', JStr ''test-checkpoint-1'')])]))
   \<and> save [] time1 ''test-checkpoint-1'' (\<lambda>m. JObj [(''metadata'', JObj m)]) (Some note_metadata)
       = (Inr [(''test-checkpoint-1'',
                Document (JObj [(''state'',
                                   JObj [(''metadata'',
                                          JObj [(''note'', JStr ''test''),
                                                (''timestamp'', JStr ''2026-01-02T09:30:05.001500+00:00''),
                                                (''checkpoint_id'', JStr ''test-checkpoint-1'')])]),
                                (''metadata'',
                                   JObj [(''note'', JStr ''test''),
                                         (''timestamp'', JStr ''2026-01-02T09:30:05.001500+00:00''),
                                         (''checkpoint_id'', JStr ''test-checkpoint-1'')])]))],
          Some [(''note'', JStr ''test''),
                (''timestamp'', JStr ''2026-01-02T09:30:05.001500+00:00''),
                (''checkpoint_id'', JStr ''test-checkpoint-1'')])"
proof -
  have h: "storable_id ''test-checkpoint-1''" by (simp add: storable_id_def)
  from save_load_roundtrip[OF h, of "[]" time1 "\<lambda>m. to_dict conv1_state" "Some note_metadata"]
       save_load_roundtrip[OF h, of "[]" time1 "\<lambda>m. JObj [(''metadata'', JObj m)]" "Some note_metadata"]
       h
  show ?thesis by (simp add: store_example_defs)
qed

text \<open>
  C6, as stated, fails for caller metadata that already has a \<open>timestamp\<close> or a
  \<open>checkpoint_id\<close>, as the metadata of a loaded checkpoint has: saved again under
  another id, the two caller-supplied fields are not in what \<open>load\<close> returns; the
  generated values have replaced them.
\<close>

theorem save_overwrites_generated_fields_counterexample:
  "map_of reused_metadata ''checkpoint_id'' = Some (JStr ''cp1'')
   \<and> map_of reused_metadata ''timestamp'' = Some (JStr ''2026-01-01T00:00:00+00:00'')
   \<and> fst (save [] time1 ''cp2'' (\<lambda>m. to_dict conv1_state) (Some reused_metadata))
       = Inr [(''cp2'',
               Document (JObj [(''state'', to_dict conv1_state),
                               (''metadata'',
                                  JObj [(''note'', JStr ''test''),
                                        (''timestamp'', JStr ''2026-01-02T09:30:05.001500+00:00''),
                                        (''checkpoint_id'', JStr ''cp2'')])]))]
   \<and> load [(''cp2'',
               Document (JObj [(''state'', to_dict conv1_state),
                               (''metadata'',
                                  JObj [(''note'', JStr ''test''),
                                        (''timestamp'', JStr ''2026-01-02T09:30:05.001500+00:00''),
                                        (''checkpoint_id'', JStr ''cp2'')])]))]
        ''cp2''
       = Inr (Some (JObj [(''state'', to_dict conv1_state),
                          (''metadata'',
                             JObj [(''note'', JStr ''test''),
                                   (''timestamp'', JStr ''2026-01-02T09:30:05.001500+00:00''),
                                   (''checkpoint_id'', JStr ''cp2'')])]))
   \<and> JStr ''cp2'' \<noteq> JStr ''cp1''
   \<and> JStr ''2026-01-02T09:30:05.001500+00:00'' \<noteq> JStr ''2026-01-01T00:00:00+00:00''"
  by (simp add: store_example_defs)

section \<open>Properties of the supervisor\<close>

text \<open>
  C5. For every conversation id, node set, checkpoint flag and directory: when the
  configured enforcer answers the question \<open>execute\<close> on \<open>conversation/id\<close> with a
  falsy value, \<open>run_conversation\<close> returns the fresh state of that conversation with
  \<open>error\<close> "Policy denied conversation execution", invokes no node, and leaves the
  directory exactly as it was. The local deny enforcer always answers so; for an
  enforcer written by hand the answer is that of its own \<open>enforce\<close>.
\<close>

theorem run_conversation_denied:
  "(\<forall>decision w1 asked.
      enforce (http_post env) (policy_enforcer self) ''execute'' (''conversation/'' @ cid)
        (Some [(''conversation_id'', JStr cid)]) w = (Inr decision, w1, asked)
      \<and> \<not> truthy decision
      \<longrightarrow> run_conversation env self cid custom_nodes auto_checkpoint dir w
           = (Inr \<lparr>conversation_id = cid, messages = [], metadata = [], checkpoints = [],
                   current_step = None, error = Some ''Policy denied conversation execution''\<rparr>,
              dir, w1, []))
   \<and> (policy_enforcer self = LocalDenyEnforcer
      \<longrightarrow> run_conversation env self cid custom_nodes auto_checkpoint dir w
           = (Inr \<lparr>conversation_id = cid, messages = [], metadata = [], checkpoints = [],
                   current_step = None, error = Some ''Policy denied conversation execution''\<rparr>,
              dir, w, []))
   \<and> (\<forall>f decision w1.
      policy_enforcer self = CustomEnforcer f
      \<and> f ''execute'' (''conversation/'' @ cid) (Some [(''conversation_id'', JStr cid)]) w
          = (Inr decision, w1)
      \<and> \<not> truthy decision
      \<longrightarrow> run_conversation env self cid custom_nodes auto_checkpoint dir w
           = (Inr \<lparr>conversation_id = cid, messages = [], metadata = [], checkpoints = [],
                   current_step = None, error = Some ''Policy denied conversation execution''\<rparr>,
              dir, w1, []))"
  by (simp add: run_conversation_def new_GraphState_def)

lemmas supervisor_example_defs =
  run_conversation_def new_Supervisor_def example_env_def deny_execute_def allow_all_def
  example_dir_def listing_node_def save_checkpoint_def add_checkpoint_def to_dict_def opt_str_def

theorem run_conversation_denied_witness:
  "policy_enforcer (new_Supervisor None None False ''http://localhost:8181'' :: nat Supervisor)
     = LocalDenyEnforcer
   \<and> run_conversation example_env (new_Supervisor None None False ''http://localhost:8181'')
        ''conv-1'' (Some [(''node1'', node1)]) True example_dir 0
       = (Inr \<lparr>conversation_id = ''conv-1'', messages = [], metadata = [], checkpoints = [],
               current_step = None, error = Some ''Policy denied conversation execution''\<rparr>,
          [(''older'', Corrupt)], 0, [])
   \<and> run_conversation example_env (new_Supervisor None (Some deny_execute) False ''http://localhost:8181'')
        ''conv-1'' (Some [(''node1'', node1)]) True example_dir 0
       = (Inr \<lparr>conversation_id = ''conv-1'', messages = [], metadata = [], checkpoints = [],
               current_step = None, error = Some ''Policy denied conversation execution''\<rparr>,
          [(''older'', Corrupt)], Suc 0, [])
   \<and> fst (run_conversation example_env (new_Supervisor None (Some allow_all) False ''http://localhost:8181'')
        ''conv-1'' (Some [(''node1'', node1)]) False example_dir 0)
       = Inr \<lparr>conversation_id = ''conv-1'', messages = [], metadata = [(''node1'', JBool True)],
               checkpoints = [], current_step = Some ''node1'', error = None\<rparr>"
  using run_conversation_denied[of example_env "new_Supervisor None None False ''http://localhost:8181''"
          "''conv-1''" 0 "Some [(''node1'', node1)]" True example_dir]
        run_conversation_denied[of example_env "new_Supervisor None (Some deny_execute) False ''http://localhost:8181''"
          "''conv-1''" 0 "Some [(''node1'', node1)]" True example_dir]
  by (simp add: supervisor_example_defs runner_example_defs)








section \<open>Properties of the listing\<close>

lemma py_insort_strings:
  assumes "\<forall>y \<in> set (x # ys). \<exists>s. key y = JStr s"
  shows "py_insort key x ys = Inr (insort_key (\<lambda>y. case key y of JStr s \<Rightarrow> s | _ \<Rightarrow> []) x ys)"
  using assms
proof (induction ys)
  case Nil
  then show ?case by simp
next
  case (Cons y ys)
  from Cons.prems obtain s t where k: "key x = JStr s" "key y = JStr t" by auto
  show ?case
  proof (cases "t < s")
    case True
    then have "\<not> s \<le> t" by (simp add: not_le)
    with True k Cons show ?thesis by (simp add: bind_exn_def)
  next
    case False
    then have "s \<le> t" by (simp add: not_less)
    with False k show ?thesis by simp
  qed
qed

lemma py_sort_strings:
  assumes "\<forall>y \<in> set xs. \<exists>s. key y = JStr s"
  shows "py_sort key xs = Inr (sort_key (\<lambda>y. case key y of JStr s \<Rightarrow> s | _ \<Rightarrow> []) xs)"
  using assms
proof (induction xs)
  case Nil
  then show ?case by simp
next
  case (Cons x xs)
  then have IH: "py_sort key xs = Inr (sort_key (\<lambda>y. case key y of JStr s \<Rightarrow> s | _ \<Rightarrow> []) xs)"
    by simp
  have "\<forall>y \<in> set (x # sort_key (\<lambda>y. case key y of JStr s \<Rightarrow> s | _ \<Rightarrow> []) xs). \<exists>s. key y = JStr s"
    using Cons.prems by simp
  from py_insort_strings[OF this] IH show ?case by (simp add: bind_exn_def)
qed

lemma py_sort_reverse_strings:
  assumes "\<forall>y \<in> set xs. \<exists>s. timestamp_key y = JStr s"
  shows "py_sort_reverse timestamp_key xs = Inr (rev (sort_key timestamp_str (rev xs)))"
proof -
  have "\<forall>y \<in> set (rev xs). \<exists>s. timestamp_key y = JStr s" using assms by simp
  from py_sort_strings[OF this]
  have "py_sort timestamp_key (rev xs)
          = Inr (sort_key (\<lambda>y. case timestamp_key y of JStr s \<Rightarrow> s | _ \<Rightarrow> []) (rev xs))" .
  moreover have "(\<lambda>y. case timestamp_key y of JStr s \<Rightarrow> s | _ \<Rightarrow> []) = timestamp_str"
    by (rule ext) (simp add: timestamp_str_def)
  ultimately show ?thesis by (simp add: py_sort_reverse_def bind_exn_def)
qed

lemma well_formed_documentD:
  assumes "well_formed_document data"
  obtains kvs md t where "data = JObj kvs"
    and "map_of kvs ''metadata'' = Some (JObj md)"
    and "map_of md ''timestamp'' = Some (JStr t)"
    and "map_of kvs ''state'' = None \<or> (\<exists>st. map_of kvs ''state'' = Some (JObj st))"
proof -
  from assms obtain kvs where d: "data = JObj kvs"
    by (cases data) (simp_all add: well_formed_document_def)
  from assms d
  have a: "case map_of kvs ''state'' of None \<Rightarrow> True | Some (JObj st) \<Rightarrow> True | Some _ \<Rightarrow> False"
    and b: "case map_of kvs ''metadata'' of
                Some (JObj md) \<Rightarrow> (case map_of md ''timestamp'' of Some (JStr t) \<Rightarrow> True | _ \<Rightarrow> False)
              | _ \<Rightarrow> False"
    by (simp_all add: well_formed_document_def)
  from b obtain mv where mv: "map_of kvs ''metadata'' = Some mv"
    by (cases "map_of kvs ''metadata''") simp_all
  from b mv obtain md where md: "mv = JObj md" by (cases mv) simp_all
  from b mv md
  have c: "case map_of md ''timestamp'' of Some (JStr t) \<Rightarrow> True | _ \<Rightarrow> False" by simp
  from c obtain tv where tv: "map_of md ''timestamp'' = Some tv"
    by (cases "map_of md ''timestamp''") simp_all
  from c tv obtain t where t: "tv = JStr t" by (cases tv) simp_all
  have st: "map_of kvs ''state'' = None \<or> (\<exists>st. map_of kvs ''state'' = Some (JObj st))"
  proof (cases "map_of kvs ''state''")
    case None
    then show ?thesis by simp
  next
    case (Some sv)
    with a show ?thesis by (cases sv) simp_all
  qed
  from that[OF d] mv md tv t st show ?thesis by simp
qed

lemmas listing_defs =
  list_entry_def checkpoint_summary_def bind_exn_def selected_def
  expected_summary_def field_def stored_field_def

lemma list_entry_well_formed:
  assumes "well_formed_document data"
  shows "list_entry conv_id stem data =
         Inr (if selected conv_id data then Some (expected_summary (stem, data)) else None)"
proof -
  from assms obtain kvs md t where d: "data = JObj kvs"
    and md: "map_of kvs ''metadata'' = Some (JObj md)" "map_of md ''timestamp'' = Some (JStr t)"
    and st: "map_of kvs ''state'' = None \<or> (\<exists>st. map_of kvs ''state'' = Some (JObj st))"
    by (rule well_formed_documentD)
  from st show ?thesis
  proof
    assume n: "map_of kvs ''state'' = None"
    show ?thesis
    proof (cases conv_id)
      case None
      then show ?thesis by (simp add: d md n listing_defs split: option.split)
    next
      case (Some c)
      then show ?thesis by (cases "c = []") (simp_all add: d md n listing_defs split: option.split)
    qed
  next
    assume "\<exists>st. map_of kvs ''state'' = Some (JObj st)"
    then obtain st where n: "map_of kvs ''state'' = Some (JObj st)" by blast
    show ?thesis
    proof (cases conv_id)
      case None
      then show ?thesis by (simp add: d md n listing_defs split: option.split)
    next
      case (Some c)
      show ?thesis
      proof (cases "map_of st ''conversation_id''")
        case N: None
        show ?thesis by (cases "c = []") (simp_all add: Some N d md n listing_defs split: option.split)
      next
        case S: (Some v)
        show ?thesis by (cases "c = []") (simp_all add: Some S d md n listing_defs split: option.split)
      qed
    qed
  qed
qed

lemma list_loop_well_formed:
  assumes "\<forall>sd \<in> set (documents dir). well_formed_document (snd sd)"
    and "Undecodable \<notin> snd ` set dir"
  shows "list_loop conv_id dir = Inr (expected_entries conv_id dir)"
  using assms
proof (induction conv_id dir rule: list_loop.induct)
  case (1 conv_id)
  show ?case by (simp add: expected_entries_def)
next
  case (2 conv_id stem rest)
  then show ?case by (simp add: expected_entries_def)
next
  case (3 conv_id stem rest)
  then show ?case by simp
next
  case (4 conv_id stem data rest)
  then have wf: "well_formed_document data"
    and IH: "list_loop conv_id rest = Inr (expected_entries conv_id rest)"
    by (simp_all add: list_entry_well_formed)
  show ?case
    by (simp add: list_entry_well_formed[OF wf] IH bind_exn_def expected_entries_def)
qed

lemma expected_summary_key:
  assumes "well_formed_document (snd sd)"
  shows "\<exists>s. timestamp_key (expected_summary sd) = JStr s"
proof -
  from assms obtain kvs md t where d: "snd sd = JObj kvs"
    and md: "map_of kvs ''metadata'' = Some (JObj md)" "map_of md ''timestamp'' = Some (JStr t)"
    by (rule well_formed_documentD)
  show ?thesis
    by (simp add: d md expected_summary_def field_def timestamp_key_def)
qed

text \<open>
  C7, amended. For every directory without undecodable files whose parsed documents
  have the shape \<open>save\<close> writes, and every filter: \<open>list_checkpoints\<close> returns, without failing, exactly the
  summaries of the documents the filter selects (those whose stored conversation id
  equals the one given; all of them when none or the empty one is given), files that
  cannot be opened or parsed being skipped, in descending order of their timestamps, documents with equal
  timestamps in directory order.
\<close>

theorem list_checkpoints_selected_sorted:
  assumes "\<forall>sd \<in> set (documents dir). well_formed_document (snd sd)"
    and "Undecodable \<notin> snd ` set dir"
  shows "list_checkpoints dir conv_id
           = Inr (rev (sort_key timestamp_str (rev (expected_entries conv_id dir))))
       \<and> mset (rev (sort_key timestamp_str (rev (expected_entries conv_id dir))))
           = mset (expected_entries conv_id dir)
       \<and> sorted (rev (map timestamp_str
                          (rev (sort_key timestamp_str (rev (expected_entries conv_id dir))))))"
proof -
  have keys: "\<forall>y \<in> set (expected_entries conv_id dir). \<exists>s. timestamp_key y = JStr s"
    using assms(1) expected_summary_key by (auto simp: expected_entries_def)
  have 1: "list_checkpoints dir conv_id
           = Inr (rev (sort_key timestamp_str (rev (expected_entries conv_id dir))))"
    by (simp add: list_checkpoints_def list_loop_well_formed[OF assms] bind_exn_def
          py_sort_reverse_strings[OF keys])
  have 2: "mset (rev (sort_key timestamp_str (rev (expected_entries conv_id dir))))
           = mset (expected_entries conv_id dir)"
    by simp
  have 3: "sorted (rev (map timestamp_str
                          (rev (sort_key timestamp_str (rev (expected_entries conv_id dir))))))"
    by (simp add: rev_map)
  from 1 2 3 show ?thesis by (intro conjI)
qed

lemmas listing_example_defs =
  listed_dir_def bare_dir_def list_checkpoints_def py_sort_reverse_def timestamp_key_def
  list_entry_def checkpoint_summary_def bind_exn_def

theorem list_checkpoints_selected_sorted_witness:
  "map (\<lambda>sd. well_formed_document (snd sd)) (documents listed_dir) = [True, True, True]
   \<and> map snd listed_dir \<noteq> [] \<and> Undecodable \<notin> snd ` set listed_dir
   \<and> list_checkpoints listed_dir (Some ''conv-1'')
       = Inr [JObj [(''checkpoint_id'', JStr ''checkpoint-3''),
                    (''timestamp'', JStr ''2026-01-01T00:00:02+00:00''),
                    (''conversation_id'', JStr ''conv-1''),
                    (''current_step'', JStr ''step3''),
                    (''metadata'', JObj [(''timestamp'', JStr ''2026-01-01T00:00:02+00:00''),
                                         (''checkpoint_id'', JStr ''checkpoint-3'')])],
              JObj [(''checkpoint_id'', JStr ''checkpoint-1''),
                    (''timestamp'', JStr ''2026-01-01T00:00:00+00:00''),
                    (''conversation_id'', JStr ''conv-1''),
                    (''current_step'', JStr ''step1''),
                    (''metadata'', JObj [(''timestamp'', JStr ''2026-01-01T00:00:00+00:00''),
                                         (''checkpoint_id'', JStr ''checkpoint-1'')])]]
   \<and> expected_entries (Some ''conv-1'') listed_dir
       = [JObj [(''checkpoint_id'', JStr ''checkpoint-1''),
                (''timestamp'', JStr ''2026-01-01T00:00:00+00:00''),
                (''conversation_id'', JStr ''conv-1''),
                (''current_step'', JStr ''step1''),
                (''metadata'', JObj [(''timestamp'', JStr ''2026-01-01T00:00:00+00:00''),
                                     (''checkpoint_id'', JStr ''checkpoint-1'')])],
          JObj [(''checkpoint_id'', JStr ''checkpoint-3''),
                (''timestamp'', JStr ''2026-01-01T00:00:02+00:00''),
                (''conversation_id'', JStr ''conv-1''),
                (''current_step'', JStr ''step3''),
                (''metadata'', JObj [(''timestamp'', JStr ''2026-01-01T00:00:02+00:00''),
                                     (''checkpoint_id'', JStr ''checkpoint-3'')])]]"
proof -
  have h: "\<forall>sd \<in> set (documents listed_dir). well_formed_document (snd sd)"
    by (simp add: listed_dir_def well_formed_document_def)
  have e: "expected_entries (Some ''conv-1'') listed_dir
       = [JObj [(''checkpoint_id'', JStr ''checkpoint-1''),
                (''timestamp'', JStr ''2026-01-01T00:00:00+00:00''),
                (''conversation_id'', JStr ''conv-1''),
                (''current_step'', JStr ''step1''),
                (''metadata'', JObj [(''timestamp'', JStr ''2026-01-01T00:00:00+00:00''),
                                     (''checkpoint_id'', JStr ''checkpoint-1'')])],
          JObj [(''checkpoint_id'', JStr ''checkpoint-3''),
                (''timestamp'', JStr ''2026-01-01T00:00:02+00:00''),
                (''conversation_id'', JStr ''conv-1''),
                (''current_step'', JStr ''step3''),
                (''metadata'', JObj [(''timestamp'', JStr ''2026-01-01T00:00:02+00:00''),
                                     (''checkpoint_id'', JStr ''checkpoint-3'')])]]"
    by (simp add: expected_entries_def listed_dir_def selected_def stored_field_def field_def
          expected_summary_def)
  have m: "map (\<lambda>sd. well_formed_document (snd sd)) (documents listed_dir) = [True, True, True]"
    by (simp add: listed_dir_def well_formed_document_def)
  have u: "Undecodable \<notin> snd ` set listed_dir" by (simp add: listed_dir_def)
  have n: "map snd listed_dir \<noteq> []" by (simp add: listed_dir_def)
  from list_checkpoints_selected_sorted[OF h u, of "Some ''conv-1''"] m e u n
  show ?thesis by (simp add: timestamp_str_def timestamp_key_def)
qed

text \<open>
  C7, as stated, fails for the empty conversation id: \<open>if conversation_id:\<close> takes
  the empty string for no filter, so every checkpoint is listed, whatever
  conversation it belongs to.
\<close>

theorem list_checkpoints_empty_filter_counterexample:
  "list_checkpoints listed_dir (Some [])
     = Inr [JObj [(''checkpoint_id'', JStr ''checkpoint-3''),
                  (''timestamp'', JStr ''2026-01-01T00:00:02+00:00''),
                  (''conversation_id'', JStr ''conv-1''),
                  (''current_step'', JStr ''step3''),
                  (''metadata'', JObj [(''timestamp'', JStr ''2026-01-01T00:00:02+00:00''),
                                       (''checkpoint_id'', JStr ''checkpoint-3'')])],
            JObj [(''checkpoint_id'', JStr ''checkpoint-2''),
                  (''timestamp'', JStr ''2026-01-01T00:00:01+00:00''),
                  (''conversation_id'', JStr ''conv-2''),
                  (''current_step'', JStr ''step2''),
                  (''metadata'', JObj [(''timestamp'', JStr ''2026-01-01T00:00:01+00:00''),
                                       (''checkpoint_id'', JStr ''checkpoint-2'')])],
            JObj [(''checkpoint_id'', JStr ''checkpoint-1''),
                  (''timestamp'', JStr ''2026-01-01T00:00:00+00:00''),
                  (''conversation_id'', JStr ''conv-1''),
                  (''current_step'', JStr ''step1''),
                  (''metadata'', JObj [(''timestamp'', JStr ''2026-01-01T00:00:00+00:00''),
                                       (''checkpoint_id'', JStr ''checkpoint-1'')])]]
   \<and> JStr ''conv-1'' \<noteq> JStr [] \<and> JStr ''conv-2'' \<noteq> JStr []"
  by (simp add: listing_example_defs)

text \<open>
  Outside that shape the listing can fail: two documents without a timestamp make the
  sort compare \<open>None\<close> with \<open>None\<close>, since the summary always has the key and the
  default of \<open>x.get("timestamp", "")\<close> never applies.
\<close>

lemma list_checkpoints_without_timestamps_raises:
  "list_checkpoints bare_dir (Some ''conv-1'') = Inl (TypeError ''not supported between instances'')"
  by (simp add: listing_example_defs)

end
